theory Spec2Isabelle
  imports Complex_Main
begin

section \<open>Risk behaviour analysis: data model\<close>

text \<open>
  The engine lives in \<^verbatim>\<open>src/lib/risk-analysis/calculations.ts\<close> (calculations, Monte
  Carlo, types) and in \<^verbatim>\<open>src/unnamed/part_002\<close> (the orchestrator
  \<^verbatim>\<open>analyzeRiskBehavior\<close> and the validator).

  Conventions of the embedding:
  \<^item> a TypeScript \<^verbatim>\<open>number\<close> is a \<^typ>\<open>real\<close>: finite IEEE doubles, read exactly.
    Rounding, \<^verbatim>\<open>NaN\<close> and the infinities are outside the model;
  \<^item> an optional field (\<^verbatim>\<open>durationDays?: number\<close>) is an \<^typ>\<open>real option\<close>,
    \<^verbatim>\<open>undefined\<close> being \<^term>\<open>None\<close>, and \<^verbatim>\<open>x ?? d\<close> is a case on it;
  \<^item> a string is a \<^typ>\<open>string\<close>; the empty string is the only falsy one;
  \<^item> the fields \<^verbatim>\<open>id\<close>, \<^verbatim>\<open>title\<close> of an activity are \<open>a_id\<close>, \<open>a_title\<close>,
    those of a risk \<open>r_id\<close>, \<open>r_title\<close>; \<^verbatim>\<open>start\<close> and \<^verbatim>\<open>end\<close> are
    \<open>start_date\<close> and \<open>end_date\<close>; \<^verbatim>\<open>riskId\<close> and \<^verbatim>\<open>title\<close> of an analysis are
    \<open>o_riskId\<close> and \<open>o_title\<close>, \<^verbatim>\<open>riskId\<close> of a propagation result \<open>p_riskId\<close>;
  \<^item> \<^verbatim>\<open>level\<close> is declared \<^verbatim>\<open>1 | 2\<close> but checked at run time by the validator
    (\<^verbatim>\<open>level !== 1 && level !== 2\<close>), so it is an \<^typ>\<open>int\<close>.
\<close>

record Activity =
  a_id :: string
  a_title :: string
  level :: int
  start_date :: string
  end_date :: string
  cost :: real
  durationDays :: "real option"
  baselineCost :: "real option"

datatype RelationType = Dependency | Concurrent

record RiskRelation =
  riskId :: string
  relationType :: RelationType
  strength :: "real option"

record Risk =
  r_id :: string
  r_title :: string
  probability :: real
  timeImpactPercent :: real
  costImpactPercent :: real
  scopeImpactPercent :: real
  category :: string
  trigger :: string
  responsePlan :: string
  relatedRisks :: "RiskRelation list"
  affectedActivities :: "string list"

record Sensitivity =
  probabilitySensitivity :: real
  timeImpactSensitivity :: real
  costImpactSensitivity :: real
  scopeImpactSensitivity :: real

record Recommendation =
  action :: string
  ROI :: "real option"

record RiskAnalysisOutput =
  o_riskId :: string
  o_title :: string
  affectedDurationSum :: real
  affectedCostSum :: real
  addedDays :: real
  expectedTimeImpact :: real
  addedCost :: real
  expectedCostImpact :: real
  scopeChangeRatio :: real
  propagatedProbability :: real
  behaviorScore :: real
  sensitivity :: Sensitivity
  recommendations :: "Recommendation list"

record CombinedScenario =
  riskIds :: "string list"
  combinedTimeImpactPercent :: real
  combinedCostImpactPercent :: real
  combinedExpectedTimeImpact :: real
  combinedExpectedCostImpact :: real

record PropagationResult =
  p_riskId :: string
  originalProbability :: real
  finalProbability :: real
  propagationPath :: "string list"

section \<open>Strings and dates\<close>

text \<open>
  \<^verbatim>\<open>String.prototype.trim\<close> removes white space at both ends. A \<^typ>\<open>char\<close> is a
  code unit below 256; the white space among these is the space, tab, line feed,
  vertical tab, form feed, carriage return and the no-break space.
\<close>

definition is_space :: "char \<Rightarrow> bool" where
  "is_space c = (c = CHR '' '' \<or> c = CHR 0x09 \<or> c = CHR 0x0A \<or> c = CHR 0x0B
     \<or> c = CHR 0x0C \<or> c = CHR 0x0D \<or> c = CHR 0xA0)"

definition trim :: "string \<Rightarrow> string" where
  "trim s = rev (dropWhile is_space (rev (dropWhile is_space s)))"

text \<open>
  \<^verbatim>\<open>new Date(s).getTime()\<close> is the platform's parser, not code of the repository: it
  is a parameter \<open>parse\<close> of the functions that read dates, giving the time in
  milliseconds, or \<^term>\<open>None\<close> for an invalid date (\<^verbatim>\<open>getTime()\<close> is
  \<^verbatim>\<open>NaN\<close>).
\<close>

type_synonym date_parser = "string \<Rightarrow> int option"

definition calculateDurationDays :: "date_parser \<Rightarrow> string \<Rightarrow> string \<Rightarrow> real" where
  "calculateDurationDays parse s e =
     (if s = [] \<or> e = [] \<or> trim s = [] \<or> trim e = [] then 0
      else case (parse s, parse e) of
             (Some startTime, Some endTime) \<Rightarrow>
               max 0 (real_of_int \<lceil>real_of_int (endTime - startTime) / (1000 * 60 * 60 * 24)\<rceil>)
           | _ \<Rightarrow> 0)"

section \<open>Calculations\<close>

definition enrichActivity :: "date_parser \<Rightarrow> Activity \<Rightarrow> Activity" where
  "enrichActivity parse a =
     a\<lparr> durationDays :=
          Some (if level a = 2 \<and> start_date a \<noteq> [] \<and> end_date a \<noteq> []
                then calculateDurationDays parse (start_date a) (end_date a) else 0),
        baselineCost := Some (cost a) \<rparr>"

definition enrichActivities :: "date_parser \<Rightarrow> Activity list \<Rightarrow> Activity list" where
  "enrichActivities parse activities = map (enrichActivity parse) activities"

text \<open>The duration one activity adds in the \<^verbatim>\<open>reduce\<close> of the duration sums.\<close>

definition activityDuration :: "date_parser \<Rightarrow> Activity \<Rightarrow> real" where
  "activityDuration parse a =
     (if level a = 2 \<and> start_date a \<noteq> [] \<and> end_date a \<noteq> []
      then (case durationDays a of
              Some d \<Rightarrow> d
            | None \<Rightarrow> calculateDurationDays parse (start_date a) (end_date a))
      else 0)"

definition activityCost :: "Activity \<Rightarrow> real" where
  "activityCost a = (case baselineCost a of Some c \<Rightarrow> c | None \<Rightarrow> cost a)"

definition getAffectedDurationSum :: "date_parser \<Rightarrow> Risk \<Rightarrow> Activity list \<Rightarrow> real" where
  "getAffectedDurationSum parse risk activities =
     foldl (\<lambda>sum a. sum + activityDuration parse a) 0
       (filter (\<lambda>a. a_id a \<in> set (affectedActivities risk) \<and> level a = 2) activities)"

definition getAffectedCostSum :: "Risk \<Rightarrow> Activity list \<Rightarrow> real" where
  "getAffectedCostSum risk activities =
     foldl (\<lambda>sum a. sum + activityCost a) 0
       (filter (\<lambda>a. a_id a \<in> set (affectedActivities risk) \<and> level a = 2) activities)"

definition calculateTimeImpact :: "Risk \<Rightarrow> real \<Rightarrow> real \<times> real" where
  "calculateTimeImpact risk durSum =
     (let added = durSum * (timeImpactPercent risk / 100)
      in (added, added * (probability risk / 100)))"

definition calculateCostImpact :: "Risk \<Rightarrow> real \<Rightarrow> real \<times> real" where
  "calculateCostImpact risk costSum =
     (let added = costSum * (costImpactPercent risk / 100)
      in (added, added * (probability risk / 100)))"

definition calculateScopeChangeRatio :: "Risk \<Rightarrow> real" where
  "calculateScopeChangeRatio risk = scopeImpactPercent risk / 100"

definition calculateSensitivity :: "Risk \<Rightarrow> real \<Rightarrow> real \<Rightarrow> real \<Rightarrow> real \<Rightarrow> Sensitivity" where
  "calculateSensitivity risk durSum costSum expTime expCost =
     \<lparr> probabilitySensitivity =
         (if probability risk > 0 then expCost / probability risk else 0),
       timeImpactSensitivity = durSum / 100,
       costImpactSensitivity = costSum / 100,
       scopeImpactSensitivity = scopeImpactPercent risk / 100 \<rparr>"

text \<open>\<^verbatim>\<open>Math.max(1, ...xs)\<close>.\<close>

definition max_with_one :: "real list \<Rightarrow> real" where
  "max_with_one xs = foldl max 1 xs"

definition incomingCount :: "string \<Rightarrow> Risk list \<Rightarrow> nat" where
  "incomingCount rid allRisks =
     length (filter (\<lambda>r. list_ex (\<lambda>rel. riskId rel = rid) (relatedRisks r)) allRisks)"

definition riskDegree :: "Risk \<Rightarrow> Risk list \<Rightarrow> nat" where
  "riskDegree r allRisks = length (relatedRisks r) + incomingCount (r_id r) allRisks"

definition calculateDependencyCentrality :: "Risk \<Rightarrow> Risk list \<Rightarrow> real" where
  "calculateDependencyCentrality risk allRisks =
     (real (riskDegree risk allRisks)
        / max_with_one (map (\<lambda>r. real (riskDegree r allRisks)) allRisks)) * 100"

definition calculateTimeSensitivityFlag :: "Risk \<Rightarrow> Activity list \<Rightarrow> real" where
  "calculateTimeSensitivityFlag risk activities =
     (if list_ex (\<lambda>a. level a = 1)
           (filter (\<lambda>a. a_id a \<in> set (affectedActivities risk)) activities)
      then 1 else 0)"

definition calculateDetectabilityScore :: "Risk \<Rightarrow> real" where
  "calculateDetectabilityScore risk =
     (if trigger risk \<noteq> [] \<and> length (trim (trigger risk)) > 0 then 1 else 0.5)"

text \<open>
  \<^verbatim>\<open>normalizeValue\<close> and the behaviour score, on numbers read as reals: the values
  the code computes where no operation overflows (\<open>calculateBehaviorScore_double_exact\<close>
  below). The section on doubles reads them with overflow, the infinities and
  \<^verbatim>\<open>NaN\<close>.
\<close>

definition normalizeValue :: "real \<Rightarrow> real \<Rightarrow> real" where
  "normalizeValue v maxValue = (if maxValue = 0 then 0 else (v / maxValue) * 100)"

text \<open>The score before \<^verbatim>\<open>Math.max(0, Math.min(100, _))\<close>.\<close>

definition rawBehaviorScore ::
  "Risk \<Rightarrow> real \<Rightarrow> real \<Rightarrow> Risk list \<Rightarrow> Activity list \<Rightarrow> real \<Rightarrow> real \<Rightarrow> real" where
  "rawBehaviorScore risk expTime expCost allRisks activities maxTime maxCost =
     0.35 * normalizeValue expTime maxTime
     + 0.25 * normalizeValue expCost maxCost
     + 0.2 * calculateDependencyCentrality risk allRisks
     + 0.15 * calculateTimeSensitivityFlag risk activities * 100
     - 0.05 * calculateDetectabilityScore risk * 100"

definition calculateBehaviorScore ::
  "Risk \<Rightarrow> real \<Rightarrow> real \<Rightarrow> Risk list \<Rightarrow> Activity list \<Rightarrow> real \<Rightarrow> real \<Rightarrow> real" where
  "calculateBehaviorScore risk expTime expCost allRisks activities maxTime maxCost =
     max 0 (min 100 (rawBehaviorScore risk expTime expCost allRisks activities maxTime maxCost))"

definition calculateSingleRisk ::
  "date_parser \<Rightarrow> Risk \<Rightarrow> Activity list \<Rightarrow> Risk list \<Rightarrow> real \<Rightarrow> real \<Rightarrow> RiskAnalysisOutput" where
  "calculateSingleRisk parse risk activities allRisks maxTime maxCost =
     (let durSum = getAffectedDurationSum parse risk activities;
          costSum = getAffectedCostSum risk activities;
          (added_days, expTime) = calculateTimeImpact risk durSum;
          (added_cost, expCost) = calculateCostImpact risk costSum
      in \<lparr> o_riskId = r_id risk,
           o_title = r_title risk,
           affectedDurationSum = durSum,
           affectedCostSum = costSum,
           addedDays = added_days,
           expectedTimeImpact = expTime,
           addedCost = added_cost,
           expectedCostImpact = expCost,
           scopeChangeRatio = calculateScopeChangeRatio risk,
           propagatedProbability = probability risk,
           behaviorScore =
             calculateBehaviorScore risk expTime expCost allRisks activities maxTime maxCost,
           sensitivity = calculateSensitivity risk durSum costSum expTime expCost,
           recommendations = [] \<rparr>)"

text \<open>
  \<^verbatim>\<open>calculateCombinedImpact\<close>. When no selected risk is found and a Level 2 activity
  exists, the source divides \<^verbatim>\<open>0 / 0\<close> for the average probability and the expected
  impacts are \<^verbatim>\<open>NaN\<close>, which no \<^typ>\<open>real\<close> reads: the model returns \<^term>\<open>None\<close>
  there.
\<close>

definition zeroScenario :: "string list \<Rightarrow> CombinedScenario" where
  "zeroScenario ids =
     \<lparr> riskIds = ids,
       combinedTimeImpactPercent = 0,
       combinedCostImpactPercent = 0,
       combinedExpectedTimeImpact = 0,
       combinedExpectedCostImpact = 0 \<rparr>"

definition selectRisks :: "string list \<Rightarrow> Risk list \<Rightarrow> Risk list" where
  "selectRisks ids risks = filter (\<lambda>r. r_id r \<in> set ids) risks"

definition commonActivitiesOf :: "Risk list \<Rightarrow> Activity list \<Rightarrow> Activity list" where
  "commonActivitiesOf selectedRisks activities =
     filter (\<lambda>a. list_all (\<lambda>r. a_id a \<in> set (affectedActivities r)) selectedRisks \<and> level a = 2)
       activities"

definition calculateCombinedImpact ::
  "date_parser \<Rightarrow> string list \<Rightarrow> Risk list \<Rightarrow> Activity list \<Rightarrow> CombinedScenario option" where
  "calculateCombinedImpact parse ids risks activities =
     (let selectedRisks = selectRisks ids risks;
          commonActivities = commonActivitiesOf selectedRisks activities
      in if length commonActivities = 0 then Some (zeroScenario ids)
         else if length selectedRisks = 0 then None
         else
           let timePercent = min 200 (foldl (\<lambda>sum r. sum + timeImpactPercent r) 0 selectedRisks);
               costPercent = min 200 (foldl (\<lambda>sum r. sum + costImpactPercent r) 0 selectedRisks);
               durSum = foldl (\<lambda>sum a. sum + activityDuration parse a) 0 commonActivities;
               costSum = foldl (\<lambda>sum a. sum + activityCost a) 0 commonActivities;
               avgProbability =
                 foldl (\<lambda>sum r. sum + probability r) 0 selectedRisks / real (length selectedRisks);
               combinedAddedDays = durSum * (timePercent / 100);
               combinedAddedCost = costSum * (costPercent / 100)
           in Some \<lparr> riskIds = ids,
                     combinedTimeImpactPercent = timePercent,
                     combinedCostImpactPercent = costPercent,
                     combinedExpectedTimeImpact = combinedAddedDays * (avgProbability / 100),
                     combinedExpectedCostImpact = combinedAddedCost * (avgProbability / 100) \<rparr>)"

section \<open>The behaviour score on doubles\<close>

text \<open>
  The definitions of \<^verbatim>\<open>normalizeValue\<close> and \<^verbatim>\<open>calculateBehaviorScore\<close> above read the
  numbers as reals, which is what the code computes as long as nothing overflows. A
  quotient or product of finite doubles can overflow to an infinity, a difference of
  infinities or a quotient of infinities is \<^verbatim>\<open>NaN\<close>, and \<^verbatim>\<open>Math.min\<close> and
  \<^verbatim>\<open>Math.max\<close> return \<^verbatim>\<open>NaN\<close> when an argument is \<^verbatim>\<open>NaN\<close>. This section reads the
  same two functions on doubles.

  A \<open>number\<close> is a finite number, an infinity or \<^verbatim>\<open>NaN\<close>. The result of an operation
  on finite numbers is read exactly (rounding inside the finite range is not modelled)
  unless its magnitude reaches \<open>2 ^ 1024 - 2 ^ 970\<close>, half a unit in the last place
  above the largest double, from where round-to-nearest gives the infinity of its sign.
  The sign of a zero is not modelled: a zero divisor counts as \<open>+0\<close>. The centrality,
  the flag and the detectability are quotients and constants of small counts and are
  taken from the definitions above.
\<close>

datatype number = Num real | PlusInfinity | MinusInfinity | NotANumber

text \<open>The real from which a result overflows, and the number a real result is read as.\<close>

definition overflowThreshold :: real where
  "overflowThreshold = 2 ^ 1024 - 2 ^ 970"

definition rounded :: "real \<Rightarrow> number" where
  "rounded r =
     (if overflowThreshold \<le> r then PlusInfinity
      else if r \<le> - overflowThreshold then MinusInfinity
      else Num r)"

definition infinityOf :: "bool \<Rightarrow> number" where
  "infinityOf positive = (if positive then PlusInfinity else MinusInfinity)"

text \<open>The operators \<^verbatim>\<open>+\<close>, unary \<^verbatim>\<open>-\<close>, binary \<^verbatim>\<open>-\<close>, \<^verbatim>\<open>*\<close> and \<^verbatim>\<open>/\<close>.\<close>

fun js_add :: "number \<Rightarrow> number \<Rightarrow> number" where
  "js_add (Num a) (Num b) = rounded (a + b)"
| "js_add NotANumber y = NotANumber"
| "js_add x NotANumber = NotANumber"
| "js_add PlusInfinity MinusInfinity = NotANumber"
| "js_add MinusInfinity PlusInfinity = NotANumber"
| "js_add PlusInfinity y = PlusInfinity"
| "js_add x PlusInfinity = PlusInfinity"
| "js_add MinusInfinity y = MinusInfinity"
| "js_add x MinusInfinity = MinusInfinity"

fun js_neg :: "number \<Rightarrow> number" where
  "js_neg (Num a) = Num (- a)"
| "js_neg PlusInfinity = MinusInfinity"
| "js_neg MinusInfinity = PlusInfinity"
| "js_neg NotANumber = NotANumber"

definition js_sub :: "number \<Rightarrow> number \<Rightarrow> number" where
  "js_sub x y = js_add x (js_neg y)"

fun js_mul :: "number \<Rightarrow> number \<Rightarrow> number" where
  "js_mul (Num a) (Num b) = rounded (a * b)"
| "js_mul NotANumber y = NotANumber"
| "js_mul x NotANumber = NotANumber"
| "js_mul (Num a) PlusInfinity = (if a = 0 then NotANumber else infinityOf (0 < a))"
| "js_mul (Num a) MinusInfinity = (if a = 0 then NotANumber else infinityOf (a < 0))"
| "js_mul PlusInfinity (Num b) = (if b = 0 then NotANumber else infinityOf (0 < b))"
| "js_mul MinusInfinity (Num b) = (if b = 0 then NotANumber else infinityOf (b < 0))"
| "js_mul PlusInfinity PlusInfinity = PlusInfinity"
| "js_mul MinusInfinity MinusInfinity = PlusInfinity"
| "js_mul PlusInfinity MinusInfinity = MinusInfinity"
| "js_mul MinusInfinity PlusInfinity = MinusInfinity"

fun js_div :: "number \<Rightarrow> number \<Rightarrow> number" where
  "js_div (Num a) (Num b) =
     (if b = 0 then (if a = 0 then NotANumber else infinityOf (0 < a)) else rounded (a / b))"
| "js_div NotANumber y = NotANumber"
| "js_div x NotANumber = NotANumber"
| "js_div (Num a) y = Num 0"
| "js_div PlusInfinity (Num b) = infinityOf (0 \<le> b)"
| "js_div MinusInfinity (Num b) = infinityOf (b < 0)"
| "js_div x y = NotANumber"

text \<open>\<^verbatim>\<open>Math.min\<close> and \<^verbatim>\<open>Math.max\<close> of two numbers.\<close>

fun js_min :: "number \<Rightarrow> number \<Rightarrow> number" where
  "js_min (Num a) (Num b) = Num (min a b)"
| "js_min NotANumber y = NotANumber"
| "js_min x NotANumber = NotANumber"
| "js_min MinusInfinity y = MinusInfinity"
| "js_min x MinusInfinity = MinusInfinity"
| "js_min PlusInfinity y = y"
| "js_min x PlusInfinity = x"

fun js_max :: "number \<Rightarrow> number \<Rightarrow> number" where
  "js_max (Num a) (Num b) = Num (max a b)"
| "js_max NotANumber y = NotANumber"
| "js_max x NotANumber = NotANumber"
| "js_max PlusInfinity y = PlusInfinity"
| "js_max x PlusInfinity = PlusInfinity"
| "js_max MinusInfinity y = y"
| "js_max x MinusInfinity = x"

text \<open>
  \<^verbatim>\<open>normalizeValue\<close>, and the score before and after the clamp, with the source's
  order of evaluation (sums from the left).
\<close>

definition normalizeValue_double :: "number \<Rightarrow> number \<Rightarrow> number" where
  "normalizeValue_double v maxValue =
     (if maxValue = Num 0 then Num 0 else js_mul (js_div v maxValue) (Num 100))"

definition rawBehaviorScore_double ::
  "Risk \<Rightarrow> number \<Rightarrow> number \<Rightarrow> Risk list \<Rightarrow> Activity list \<Rightarrow> number \<Rightarrow> number \<Rightarrow> number" where
  "rawBehaviorScore_double risk expTime expCost allRisks acts maxTime maxCost =
     js_sub
       (js_add
          (js_add
             (js_add (js_mul (Num 0.35) (normalizeValue_double expTime maxTime))
                     (js_mul (Num 0.25) (normalizeValue_double expCost maxCost)))
             (js_mul (Num 0.2) (Num (calculateDependencyCentrality risk allRisks))))
          (js_mul (js_mul (Num 0.15) (Num (calculateTimeSensitivityFlag risk acts))) (Num 100)))
       (js_mul (js_mul (Num 0.05) (Num (calculateDetectabilityScore risk))) (Num 100))"

definition calculateBehaviorScore_double ::
  "Risk \<Rightarrow> number \<Rightarrow> number \<Rightarrow> Risk list \<Rightarrow> Activity list \<Rightarrow> number \<Rightarrow> number \<Rightarrow> number" where
  "calculateBehaviorScore_double risk expTime expCost allRisks acts maxTime maxCost =
     js_max (Num 0)
       (js_min (Num 100)
          (rawBehaviorScore_double risk expTime expCost allRisks acts maxTime maxCost))"

section \<open>Monte Carlo simulation\<close>

text \<open>
  \<^verbatim>\<open>Math.random\<close> and \<^verbatim>\<open>Math.sqrt\<close> are the platform's, and parameters of the
  model: \<open>math_random m 0\<close>, \<open>math_random m 1\<close>, ... is the stream of the values
  \<^verbatim>\<open>Math.random()\<close> returns, each in the interval from 0 to 1 without 1, and
  \<open>math_sqrt m\<close> is the square root on numbers that are not negative. A function that
  draws takes the index of the next value and gives back the index after its draws.
\<close>

record Math =
  math_random :: "nat \<Rightarrow> real"
  math_sqrt :: "real \<Rightarrow> real"

text \<open>
  \<^verbatim>\<open>triangularRandom\<close>. With \<open>max = min\<close> the source's \<^verbatim>\<open>fc\<close> is an infinity or
  \<^verbatim>\<open>NaN\<close>, and \<^verbatim>\<open>u < fc\<close> holds for plus infinity only. The simulation calls it
  with \<open>min = 0.8 \<times> mode\<close> and \<open>max = 1.2 \<times> mode\<close>, where the arguments of the
  two square roots are not negative.
\<close>

definition triangularRandom ::
  "Math \<Rightarrow> nat \<Rightarrow> real \<Rightarrow> real \<Rightarrow> real \<Rightarrow> real \<times> nat" where
  "triangularRandom m i mn mode mx =
     (let u = math_random m i
      in (if (if mx - mn = 0 then 0 < mode - mn else u < (mode - mn) / (mx - mn))
          then mn + math_sqrt m (u * (mx - mn) * (mode - mn))
          else mx - math_sqrt m ((1 - u) * (mx - mn) * (mx - mode)),
          Suc i))"

text \<open>The duration one Level 2 activity adds in the sums of \<^verbatim>\<open>runIteration\<close>.\<close>

definition datedDuration :: "date_parser \<Rightarrow> Activity \<Rightarrow> real" where
  "datedDuration parse a =
     (if start_date a \<noteq> [] \<and> end_date a \<noteq> []
      then (case durationDays a of
              Some d \<Rightarrow> d
            | None \<Rightarrow> calculateDurationDays parse (start_date a) (end_date a))
      else 0)"

text \<open>
  The body of the loop over the risks in \<^verbatim>\<open>runIteration\<close>; the state is
  \<^verbatim>\<open>totalCost\<close>, \<^verbatim>\<open>totalDuration\<close> and the index of the next random value.
\<close>

definition simulateRisk ::
  "date_parser \<Rightarrow> Math \<Rightarrow> Activity list \<Rightarrow> (real \<times> real) \<times> nat \<Rightarrow> Risk
     \<Rightarrow> (real \<times> real) \<times> nat" where
  "simulateRisk parse m level2Activities st risk =
     (case st of ((totalCost, totalDuration), i) \<Rightarrow>
        if math_random m i * 100 < probability risk
        then
          let affected =
                filter (\<lambda>a. a_id a \<in> set (affectedActivities risk)) level2Activities
          in if length affected > 0
             then
               let affectedCost = foldl (\<lambda>sum a. sum + cost a) 0 affected;
                   affectedDuration = foldl (\<lambda>sum a. sum + datedDuration parse a) 0 affected;
                   (timeImpact, i2) =
                     triangularRandom m (Suc i) (timeImpactPercent risk * 0.8)
                       (timeImpactPercent risk) (timeImpactPercent risk * 1.2);
                   (costImpact, i3) =
                     triangularRandom m i2 (costImpactPercent risk * 0.8)
                       (costImpactPercent risk) (costImpactPercent risk * 1.2)
               in ((totalCost + affectedCost * (costImpact / 100),
                    totalDuration + affectedDuration * (timeImpact / 100)), i3)
             else ((totalCost, totalDuration), Suc i)
        else ((totalCost, totalDuration), Suc i))"

definition runIteration ::
  "date_parser \<Rightarrow> Math \<Rightarrow> nat \<Rightarrow> Risk list \<Rightarrow> Activity list \<Rightarrow> (real \<times> real) \<times> nat" where
  "runIteration parse m i rs acts =
     (let level2Activities = filter (\<lambda>a. level a = 2) acts;
          baseCost = foldl (\<lambda>sum a. sum + cost a) 0 level2Activities;
          baseDuration = foldl (\<lambda>sum a. sum + datedDuration parse a) 0 level2Activities;
          ((totalCost, totalDuration), i') =
            foldl (simulateRisk parse m level2Activities) ((0, 0), i) rs
      in ((baseCost + totalCost, baseDuration + totalDuration), i'))"

text \<open>
  \<^verbatim>\<open>percentile\<close> and \<^verbatim>\<open>calculateStats\<close>: on an empty array the source reads
  \<^verbatim>\<open>undefined\<close> and divides \<^verbatim>\<open>0 / 0\<close>; the model gives \<^term>\<open>None\<close>.
\<close>

definition percentile :: "real list \<Rightarrow> real \<Rightarrow> real option" where
  "percentile sortedArray p =
     (if sortedArray = [] then None
      else
        let index = \<lceil>(p / 100) * real (length sortedArray)\<rceil> - 1
        in Some (sortedArray ! nat (max 0 (min index (int (length sortedArray) - 1)))))"

definition calculateStats :: "Math \<Rightarrow> real list \<Rightarrow> (real \<times> real) option" where
  "calculateStats m vs =
     (if vs = [] then None
      else
        let average = foldl (\<lambda>sum v. sum + v) 0 vs / real (length vs);
            variance = foldl (\<lambda>sum v. sum + (v - average) ^ 2) 0 vs / real (length vs)
        in Some (average, math_sqrt m variance))"

record Distribution =
  mean :: real
  stdDev :: real
  p10 :: real
  p50 :: real
  p90 :: real

record MonteCarloOutput =
  enabled :: bool
  iterations :: real
  totalCostDistribution :: Distribution
  totalDurationDistribution :: Distribution
  probabilityOverDeadline :: "real option"
  probabilityOverBudget :: "real option"

definition distributionOf :: "Math \<Rightarrow> real list \<Rightarrow> Distribution option" where
  "distributionOf m sortedArray =
     (case (calculateStats m sortedArray, percentile sortedArray 10, percentile sortedArray 50,
            percentile sortedArray 90) of
        (Some (average, sd), Some q10, Some q50, Some q90) \<Rightarrow>
          Some \<lparr> mean = average, stdDev = sd, p10 = q10, p50 = q50, p90 = q90 \<rparr>
      | _ \<Rightarrow> None)"

text \<open>
  The trials of \<^verbatim>\<open>for (let i = 0; i < iterations; i++)\<close>, \<open>n\<close> of them, in order:
  the cost results and the duration results.
\<close>

fun runTrials ::
  "date_parser \<Rightarrow> Math \<Rightarrow> Risk list \<Rightarrow> Activity list \<Rightarrow> nat \<Rightarrow> nat
     \<Rightarrow> real list \<times> real list" where
  "runTrials parse m rs acts 0 i = ([], [])"
| "runTrials parse m rs acts (Suc n) i =
     (let ((totalCost, totalDuration), i') = runIteration parse m i rs acts;
          (costResults, durationResults) = runTrials parse m rs acts n i'
      in (totalCost # costResults, totalDuration # durationResults))"

text \<open>
  \<^verbatim>\<open>runMonteCarloSimulation\<close>. The loop runs for \<open>i = 0, 1, ...\<close> below
  \<^verbatim>\<open>iterations\<close>. When no trial runs the statistics are \<^verbatim>\<open>NaN\<close> and the percentiles
  \<^verbatim>\<open>undefined\<close>: the model gives \<^term>\<open>None\<close>.
\<close>

definition runMonteCarloSimulation ::
  "date_parser \<Rightarrow> Math \<Rightarrow> Risk list \<Rightarrow> Activity list \<Rightarrow> real \<Rightarrow> real option
     \<Rightarrow> real option \<Rightarrow> MonteCarloOutput option" where
  "runMonteCarloSimulation parse m rs acts iters deadline budget =
     (let (costs, durations) = runTrials parse m rs acts (nat \<lceil>iters\<rceil>) 0;
          costResults = sort costs;
          durationResults = sort durations
      in case (distributionOf m costResults, distributionOf m durationResults) of
           (Some costDistribution, Some durationDistribution) \<Rightarrow>
             Some \<lparr> enabled = True,
                    iterations = iters,
                    totalCostDistribution = costDistribution,
                    totalDurationDistribution = durationDistribution,
                    probabilityOverDeadline =
                      (case deadline of
                         None \<Rightarrow> None
                       | Some d \<Rightarrow>
                           Some (real (length (filter (\<lambda>x. x > d) durationResults)) / iters)),
                    probabilityOverBudget =
                      (case budget of
                         None \<Rightarrow> None
                       | Some b \<Rightarrow>
                           Some (real (length (filter (\<lambda>x. x > b) costResults)) / iters)) \<rparr>
         | _ \<Rightarrow> None)"

section \<open>Validator\<close>

record ValidationError =
  field :: string
  message :: string

definition blank :: "string \<Rightarrow> bool" where
  "blank s = (s = [] \<or> length (trim s) = 0)"

text \<open>\<^verbatim>\<open>endDate < startDate\<close> on two \<^verbatim>\<open>Date\<close>s: false when either is invalid.\<close>

definition dateBefore :: "date_parser \<Rightarrow> string \<Rightarrow> string \<Rightarrow> bool" where
  "dateBefore parse e s =
     (case (parse e, parse s) of (Some endTime, Some startTime) \<Rightarrow> endTime < startTime | _ \<Rightarrow> False)"

definition validateActivity :: "date_parser \<Rightarrow> Activity \<Rightarrow> ValidationError list" where
  "validateActivity parse a =
     (if blank (a_id a) then [\<lparr>field = ''id'', message = ''Activity ID is required''\<rparr>] else [])
     @ (if blank (a_title a)
        then [\<lparr>field = ''title'', message = ''Activity title is required''\<rparr>] else [])
     @ (if start_date a = []
        then [\<lparr>field = ''start'', message = ''Start date is required''\<rparr>] else [])
     @ (if end_date a = []
        then [\<lparr>field = ''end'', message = ''End date is required''\<rparr>] else [])
     @ (if start_date a \<noteq> [] \<and> end_date a \<noteq> [] \<and> dateBefore parse (end_date a) (start_date a)
        then [\<lparr>field = ''end'', message = ''End date must be >= start date''\<rparr>] else [])
     @ (if cost a < 0 then [\<lparr>field = ''cost'', message = ''Cost must be >= 0''\<rparr>] else [])
     @ (if level a \<noteq> 1 \<and> level a \<noteq> 2
        then [\<lparr>field = ''level'', message = ''Level must be 1 or 2''\<rparr>] else [])"

definition validateRisk :: "Risk \<Rightarrow> string list \<Rightarrow> ValidationError list" where
  "validateRisk risk allActivityIds =
     (if blank (r_id risk) then [\<lparr>field = ''id'', message = ''Risk ID is required''\<rparr>] else [])
     @ (if blank (r_title risk)
        then [\<lparr>field = ''title'', message = ''Risk title is required''\<rparr>] else [])
     @ (if probability risk < 0 \<or> probability risk > 100
        then [\<lparr>field = ''probability'', message = ''Probability must be between 0 and 100''\<rparr>]
        else [])
     @ (if timeImpactPercent risk < 0
        then [\<lparr>field = ''timeImpactPercent'', message = ''Time impact must be >= 0''\<rparr>] else [])
     @ (if costImpactPercent risk < 0
        then [\<lparr>field = ''costImpactPercent'', message = ''Cost impact must be >= 0''\<rparr>] else [])
     @ concat (map (\<lambda>activityId.
          if activityId \<in> set allActivityIds then []
          else [\<lparr>field = ''affectedActivities'',
                 message = ''Activity '' @ activityId @ '' does not exist''\<rparr>])
          (affectedActivities risk))
     @ concat (map (\<lambda>relation.
          case strength relation of
            Some s \<Rightarrow>
              if s < 0 \<or> s > 1
              then [\<lparr>field = ''relatedRisks'',
                     message = ''Relation strength must be between 0 and 1 for '' @ riskId relation\<rparr>]
              else []
          | None \<Rightarrow> [])
          (relatedRisks risk))"

text \<open>
  A \<^verbatim>\<open>Set<string>\<close> is the list of its members in insertion order, which is what
  \<^verbatim>\<open>Array.from\<close> gives back.
\<close>

definition set_add :: "string \<Rightarrow> string list \<Rightarrow> string list" where
  "set_add x s = (if x \<in> set s then s else s @ [x])"

definition validateActivitiesStep ::
  "date_parser \<Rightarrow> ValidationError list \<times> string list \<Rightarrow> Activity
     \<Rightarrow> ValidationError list \<times> string list" where
  "validateActivitiesStep parse st activity =
     (case st of (errors, activityIds) \<Rightarrow>
        (errors @ validateActivity parse activity
           @ (if a_id activity \<in> set activityIds
              then [\<lparr>field = ''activities'',
                     message = ''Duplicate activity ID: '' @ a_id activity\<rparr>]
              else []),
         set_add (a_id activity) activityIds))"

definition validateRisksStep ::
  "string list \<Rightarrow> ValidationError list \<times> string list \<Rightarrow> Risk
     \<Rightarrow> ValidationError list \<times> string list" where
  "validateRisksStep allActivityIds st risk =
     (case st of (errors, seenRiskIds) \<Rightarrow>
        (errors @ validateRisk risk allActivityIds
           @ (if r_id risk \<in> set seenRiskIds
              then [\<lparr>field = ''risks'', message = ''Duplicate risk ID: '' @ r_id risk\<rparr>]
              else [])
           @ (if length (affectedActivities risk) = 0
              then [\<lparr>field = ''risks'',
                     message = ''Risk '' @ r_id risk @ '' must have at least one affected activity''\<rparr>]
              else []),
         set_add (r_id risk) seenRiskIds))"

definition validateInput :: "date_parser \<Rightarrow> Activity list \<Rightarrow> Risk list \<Rightarrow> ValidationError list" where
  "validateInput parse inputActivities inputRisks =
     (let errors0 =
            (if length inputActivities = 0
             then [\<lparr>field = ''activities'', message = ''At least one activity is required''\<rparr>]
             else [])
            @ (if length inputRisks = 0
               then [\<lparr>field = ''risks'', message = ''At least one risk is required''\<rparr>]
               else []);
          (errors1, activityIds) =
            foldl (validateActivitiesStep parse) (errors0, []) inputActivities;
          (errors2, seenRiskIds) = foldl (validateRisksStep activityIds) (errors1, []) inputRisks
      in errors2)"

section \<open>Orchestrator\<close>

text \<open>
  \<^verbatim>\<open>analyzeRiskBehavior\<close> works on objects: \<^verbatim>\<open>input.risks\<close> and
  \<^verbatim>\<open>input.activities\<close> are arrays of references, the working copies are new objects,
  and the relaxation assigns to \<^verbatim>\<open>currentRisk.probability\<close> through a reference. The
  model keeps the objects in a store: a reference is an index into the list of risk
  objects (or of activity objects), an object literal \<^verbatim>\<open>{ ...r }\<close> is appended to the
  store, and the assignment updates the store at the reference.

  The analysis records and the result arrays are objects of other types, reachable
  only from the function's own variables: they are plain values.

  The copies share the arrays \<^verbatim>\<open>relatedRisks\<close> and \<^verbatim>\<open>affectedActivities\<close> with the
  originals; nothing assigns to an element of these arrays, and they are values of the
  records. The optional arguments of the call are the record \<open>Options\<close>.
\<close>

type_synonym ref = nat

record heap =
  risk_objs :: "Risk list"
  act_objs :: "Activity list"

record Input =
  activities :: "ref list"
  risks :: "ref list"

record Options =
  enableMonteCarlo :: bool
  monteCarloIterations :: real
  deadline :: "real option"
  budget :: "real option"

text \<open>The call \<^verbatim>\<open>analyzeRiskBehavior(input)\<close>: every optional argument at its default.\<close>

definition defaultOptions :: Options where
  "defaultOptions =
     \<lparr> enableMonteCarlo = False, monteCarloIterations = 7500, deadline = None, budget = None \<rparr>"

record AnalysisOutput =
  perRiskAnalysis :: "RiskAnalysisOutput list"
  combinedScenarios :: "CombinedScenario option list"
  propagationResults :: "PropagationResult list"
  topRisksByBehaviorScore :: "RiskAnalysisOutput list"
  topRisksByExpectedImpact :: "RiskAnalysisOutput list"
  monteCarlo :: "MonteCarloOutput option option"

definition risk_at :: "heap \<Rightarrow> ref \<Rightarrow> Risk" where
  "risk_at h a = risk_objs h ! a"

definition activity_at :: "heap \<Rightarrow> ref \<Rightarrow> Activity" where
  "activity_at h a = act_objs h ! a"

text \<open>Every reference of the input points to an object of the store.\<close>

definition wf_input :: "heap \<Rightarrow> Input \<Rightarrow> bool" where
  "wf_input h inp =
     (list_all (\<lambda>a. a < length (risk_objs h)) (risks inp)
      \<and> list_all (\<lambda>a. a < length (act_objs h)) (activities inp))"

text \<open>\<^verbatim>\<open>enrichActivities(input.activities)\<close>: one new object for each activity.\<close>

definition allocActivities :: "Activity list \<Rightarrow> heap \<Rightarrow> ref list \<times> heap" where
  "allocActivities objs h =
     ([length (act_objs h) ..< length (act_objs h) + length objs],
      h\<lparr>act_objs := act_objs h @ objs\<rparr>)"

text \<open>\<^verbatim>\<open>input.risks.map((r) => ({ ...r }))\<close>: one new object for each risk.\<close>

definition copyRisks :: "ref list \<Rightarrow> heap \<Rightarrow> ref list \<times> heap" where
  "copyRisks rs h =
     ([length (risk_objs h) ..< length (risk_objs h) + length rs],
      h\<lparr>risk_objs := risk_objs h @ map (risk_at h) rs\<rparr>)"

text \<open>The assignment \<^verbatim>\<open>currentRisk.probability = newProbability\<close>.\<close>

definition set_probability :: "ref \<Rightarrow> real \<Rightarrow> heap \<Rightarrow> heap" where
  "set_probability a p h =
     h\<lparr>risk_objs := (risk_objs h)[a := (risk_objs h ! a)\<lparr>probability := p\<rparr>]\<rparr>"

definition strengthOrDefault :: "RiskRelation \<Rightarrow> real" where
  "strengthOrDefault relation = (case strength relation of Some s \<Rightarrow> s | None \<Rightarrow> 0.3)"

text \<open>The body of the innermost loop, for one \<^verbatim>\<open>otherRisk\<close>.\<close>

definition relaxStep :: "string \<Rightarrow> ref \<Rightarrow> heap \<Rightarrow> ref \<Rightarrow> heap" where
  "relaxStep rid currentRisk h otherRisk =
     (case find (\<lambda>rel. riskId rel = rid) (relatedRisks (risk_at h otherRisk)) of
        None \<Rightarrow> h
      | Some relation \<Rightarrow>
          let probabilityIncrease = strengthOrDefault relation * probability (risk_at h otherRisk)
          in if probabilityIncrease > 0.1
             then set_probability currentRisk
                    (min 100 (probability (risk_at h currentRisk) + probabilityIncrease)) h
             else h)"

text \<open>\<^verbatim>\<open>propagatedRisks.find((r) => r.id === risk.id)\<close>.\<close>

definition findPropagated :: "ref list \<Rightarrow> heap \<Rightarrow> ref \<Rightarrow> ref option" where
  "findPropagated propagatedRisks h risk =
     find (\<lambda>p. r_id (risk_at h p) = r_id (risk_at h risk)) propagatedRisks"

text \<open>The body of the loop over \<^verbatim>\<open>input.risks\<close>, for one \<^verbatim>\<open>risk\<close>.\<close>

definition relaxRisk :: "ref list \<Rightarrow> heap \<Rightarrow> ref \<Rightarrow> heap" where
  "relaxRisk propagatedRisks h risk =
     (case findPropagated propagatedRisks h risk of
        None \<Rightarrow> h
      | Some currentRisk \<Rightarrow>
          foldl (relaxStep (r_id (risk_at h risk)) currentRisk) h propagatedRisks)"

definition relaxPass :: "ref list \<Rightarrow> ref list \<Rightarrow> heap \<Rightarrow> heap" where
  "relaxPass inputRisks propagatedRisks h = foldl (relaxRisk propagatedRisks) h inputRisks"

text \<open>\<^verbatim>\<open>for (let pass = 0; pass < 3; pass++)\<close>.\<close>

definition relaxPasses :: "ref list \<Rightarrow> ref list \<Rightarrow> heap \<Rightarrow> heap" where
  "relaxPasses inputRisks propagatedRisks h =
     foldl (\<lambda>h' pass. relaxPass inputRisks propagatedRisks h') h [0 ..< 3]"

text \<open>
  \<^verbatim>\<open>perRiskAnalysis[analysisIndex].propagatedProbability = p\<close> with
  \<^verbatim>\<open>analysisIndex = perRiskAnalysis.findIndex((a) => a.riskId === rid)\<close>: the first
  analysis of that risk id, if there is one.
\<close>

fun setPropagated :: "string \<Rightarrow> real \<Rightarrow> RiskAnalysisOutput list \<Rightarrow> RiskAnalysisOutput list" where
  "setPropagated rid p [] = []"
| "setPropagated rid p (a # as) =
     (if o_riskId a = rid then a\<lparr>propagatedProbability := p\<rparr> # as
      else a # setPropagated rid p as)"

text \<open>The body of the loop that creates the propagation results.\<close>

definition resultStep ::
  "ref list \<Rightarrow> heap \<Rightarrow> PropagationResult list \<times> RiskAnalysisOutput list \<Rightarrow> ref
     \<Rightarrow> PropagationResult list \<times> RiskAnalysisOutput list" where
  "resultStep propagatedRisks h st risk =
     (case st of (results, analyses) \<Rightarrow>
        (case findPropagated propagatedRisks h risk of
           None \<Rightarrow> (results, analyses)
         | Some propagated \<Rightarrow>
             (results @ [\<lparr> p_riskId = r_id (risk_at h risk),
                           originalProbability = probability (risk_at h risk),
                           finalProbability = probability (risk_at h propagated),
                           propagationPath = [] \<rparr>],
              setPropagated (r_id (risk_at h risk)) (probability (risk_at h propagated)) analyses)))"

text \<open>Step 6, for \<^verbatim>\<open>perRiskAnalysis[i]\<close> and \<^verbatim>\<open>propagatedRisks[i]\<close>.\<close>

definition recalculate :: "RiskAnalysisOutput \<Rightarrow> Risk \<Rightarrow> RiskAnalysisOutput" where
  "recalculate analysis risk =
     (let added_days = affectedDurationSum analysis * (timeImpactPercent risk / 100);
          added_cost = affectedCostSum analysis * (costImpactPercent risk / 100)
      in analysis\<lparr> addedDays := added_days,
                   expectedTimeImpact := added_days * (probability risk / 100),
                   addedCost := added_cost,
                   expectedCostImpact := added_cost * (probability risk / 100) \<rparr>)"

definition expectedImpact :: "RiskAnalysisOutput \<Rightarrow> real" where
  "expectedImpact a = expectedTimeImpact a + expectedCostImpact a"

text \<open>
  \<^verbatim>\<open>[...xs].sort((a, b) => key(b) - key(a))\<close>: a stable sort, largest key first.
\<close>

definition sortDescending :: "('a \<Rightarrow> real) \<Rightarrow> 'a list \<Rightarrow> 'a list" where
  "sortDescending key xs = sort_key (\<lambda>x. - key x) xs"

text \<open>The pairs \<open>(xs[i], xs[j])\<close> with \<open>i < j\<close>, in the order of the two nested loops.\<close>

fun pairsOf :: "'a list \<Rightarrow> ('a \<times> 'a) list" where
  "pairsOf [] = []"
| "pairsOf (x # xs) = map (Pair x) xs @ pairsOf xs"

definition combinedScenariosOf ::
  "date_parser \<Rightarrow> string list \<Rightarrow> Risk list \<Rightarrow> Activity list \<Rightarrow> CombinedScenario option list" where
  "combinedScenariosOf parse top3Risks propagated enriched =
     (if length top3Risks \<ge> 2
      then map (\<lambda>(a, b). calculateCombinedImpact parse [a, b] propagated enriched) (pairsOf top3Risks)
           @ (if length top3Risks = 3
              then [calculateCombinedImpact parse top3Risks propagated enriched] else [])
      else [])"

definition analyzeRiskBehavior ::
  "date_parser \<Rightarrow> Math \<Rightarrow> Options \<Rightarrow> Input \<Rightarrow> heap \<Rightarrow> AnalysisOutput \<times> heap" where
  "analyzeRiskBehavior parse m opts inp h0 =
     (let (enrichedRefs, h1) =
            allocActivities (enrichActivities parse (map (activity_at h0) (activities inp))) h0;
          enrichedActivities = map (activity_at h1) enrichedRefs;
          inputRisks = map (risk_at h1) (risks inp);
          initialAnalyses =
            map (\<lambda>risk. calculateSingleRisk parse risk enrichedActivities inputRisks 1000 100000)
              inputRisks;
          maxExpectedTimeImpact = max_with_one (map expectedTimeImpact initialAnalyses);
          maxExpectedCostImpact = max_with_one (map expectedCostImpact initialAnalyses);
          analyses4 =
            map (\<lambda>risk. calculateSingleRisk parse risk enrichedActivities inputRisks
                          maxExpectedTimeImpact maxExpectedCostImpact)
              inputRisks;
          (propagatedRisks, h2) = copyRisks (risks inp) h1;
          h3 = relaxPasses (risks inp) propagatedRisks h2;
          (results, analyses5) = foldl (resultStep propagatedRisks h3) ([], analyses4) (risks inp);
          analyses6 = map2 recalculate analyses5 (map (risk_at h3) propagatedRisks);
          top3Risks = map o_riskId (take 3 (sortDescending expectedImpact analyses6))
      in (\<lparr> perRiskAnalysis = analyses6,
            combinedScenarios =
              combinedScenariosOf parse top3Risks (map (risk_at h3) propagatedRisks)
                enrichedActivities,
            propagationResults = results,
            topRisksByBehaviorScore = sortDescending behaviorScore analyses6,
            topRisksByExpectedImpact = sortDescending expectedImpact analyses6,
            monteCarlo =
              (if enableMonteCarlo opts
               then Some (runMonteCarloSimulation parse m (map (risk_at h3) propagatedRisks)
                            enrichedActivities (monteCarloIterations opts) (deadline opts)
                            (budget opts))
               else None) \<rparr>,
          h3))"

section \<open>Derived notions used in the proofs\<close>

text \<open>
  The propagation results the result loop pushes, read off the store after the
  relaxation (the loop's other effect, on the analyses, does not feed back into them).
\<close>

definition resultsOf :: "ref list \<Rightarrow> heap \<Rightarrow> ref list \<Rightarrow> PropagationResult list" where
  "resultsOf propagatedRisks h rs =
     concat (map (\<lambda>risk.
        case findPropagated propagatedRisks h risk of
          None \<Rightarrow> []
        | Some propagated \<Rightarrow>
            [\<lparr> p_riskId = r_id (risk_at h risk),
               originalProbability = probability (risk_at h risk),
               finalProbability = probability (risk_at h propagated),
               propagationPath = [] \<rparr>]) rs)"

text \<open>The working copies and the store after steps 1 and 5 of the orchestrator.\<close>

definition propagatedHeap :: "date_parser \<Rightarrow> Input \<Rightarrow> heap \<Rightarrow> ref list \<times> heap" where
  "propagatedHeap parse inp h0 =
     (let h1 = snd (allocActivities
                      (enrichActivities parse (map (activity_at h0) (activities inp))) h0);
          (propagatedRisks, h2) = copyRisks (risks inp) h1
      in (propagatedRisks, relaxPasses (risks inp) propagatedRisks h2))"

text \<open>
  The store the relaxation starts from: the enriched activities and the working copies
  appended to the caller's store; and the references of the working copies.
\<close>

definition workingHeap :: "date_parser \<Rightarrow> Input \<Rightarrow> heap \<Rightarrow> heap" where
  "workingHeap parse inp h0 =
     h0\<lparr> act_objs := act_objs h0 @ enrichActivities parse (map (activity_at h0) (activities inp)),
         risk_objs := risk_objs h0 @ map (risk_at h0) (risks inp) \<rparr>"

definition workingRefs :: "Input \<Rightarrow> heap \<Rightarrow> ref list" where
  "workingRefs inp h0 = [length (risk_objs h0) ..< length (risk_objs h0) + length (risks inp)]"

text \<open>
  \<open>relaxed ps h h'\<close>: \<open>h'\<close> comes from \<open>h\<close> by assignments to the probability of
  objects referenced in \<open>ps\<close>, none of which lowers a probability of at most 100 or
  takes it above 100.
\<close>

definition relaxed :: "ref list \<Rightarrow> heap \<Rightarrow> heap \<Rightarrow> bool" where
  "relaxed ps h h' \<longleftrightarrow>
     act_objs h' = act_objs h
     \<and> length (risk_objs h') = length (risk_objs h)
     \<and> (\<forall>a < length (risk_objs h).
           (a \<notin> set ps \<longrightarrow> risk_objs h' ! a = risk_objs h ! a)
           \<and> risk_objs h' ! a = (risk_objs h ! a)\<lparr>probability := probability (risk_objs h' ! a)\<rparr>
           \<and> (probability (risk_objs h ! a) \<le> 100 \<longrightarrow>
                 probability (risk_objs h ! a) \<le> probability (risk_objs h' ! a)
                 \<and> probability (risk_objs h' ! a) \<le> 100))"

section \<open>Example data\<close>

text \<open>A parser that knows three ISO dates (midnight UTC, in milliseconds).\<close>

definition exampleParse :: date_parser where
  "exampleParse s =
     (if s = ''2024-01-01'' then Some 1704067200000
      else if s = ''2024-01-11'' then Some 1704931200000
      else if s = ''2024-01-16'' then Some 1705363200000
      else None)"

definition rawA1 :: Activity where
  "rawA1 = \<lparr> a_id = ''A1'', a_title = ''Design'', level = 2, start_date = ''2024-01-01'',
             end_date = ''2024-01-11'', cost = 1000, durationDays = None, baselineCost = None \<rparr>"

definition rawA2 :: Activity where
  "rawA2 = \<lparr> a_id = ''A2'', a_title = ''Build'', level = 2, start_date = ''2024-01-11'',
             end_date = ''2024-01-16'', cost = 500, durationDays = None, baselineCost = None \<rparr>"

text \<open>A Level 1 artifact as the data model has it: no dates, no cost.\<close>

definition artifactG :: Activity where
  "artifactG = \<lparr> a_id = ''G1'', a_title = ''Phase'', level = 1, start_date = [],
                 end_date = [], cost = 0, durationDays = None, baselineCost = None \<rparr>"

definition enrichedA1 :: Activity where
  "enrichedA1 = rawA1\<lparr> durationDays := Some 10, baselineCost := Some 1000 \<rparr>"

definition enrichedA2 :: Activity where
  "enrichedA2 = rawA2\<lparr> durationDays := Some 5, baselineCost := Some 500 \<rparr>"

definition mkRisk :: "string \<Rightarrow> real \<Rightarrow> string \<Rightarrow> RiskRelation list \<Rightarrow> string list \<Rightarrow> Risk" where
  "mkRisk i p trig rels affected =
     \<lparr> r_id = i, r_title = i, probability = p, timeImpactPercent = 20, costImpactPercent = 10,
       scopeImpactPercent = 0, category = ''schedule'', trigger = trig, responsePlan = [],
       relatedRisks = rels, affectedActivities = affected \<rparr>"

text \<open>The risk of the single-risk scenario: probability 50, time impact 20, cost impact 10.\<close>

definition scenarioR1 :: Risk where
  "scenarioR1 = mkRisk ''R1'' 50 ''supplier delay'' [] [''A1'', ''A2'']"

definition relationTo :: "string \<Rightarrow> real \<Rightarrow> RiskRelation" where
  "relationTo rid s = \<lparr> riskId = rid, relationType = Dependency, strength = Some s \<rparr>"

text \<open>Two risks that differ in the trigger only; each lists one related risk.\<close>

definition silentRisk :: Risk where
  "silentRisk = mkRisk ''R1'' 50 [] [relationTo ''R2'' 0.5] []"

definition triggeredRisk :: Risk where
  "triggeredRisk = silentRisk\<lparr> trigger := ''supplier delay'' \<rparr>"

text \<open>Risks on disjoint activities.\<close>

definition riskOnA1 :: Risk where
  "riskOnA1 = mkRisk ''R1'' 50 [] [] [''A1'']"

definition riskOnA2 :: Risk where
  "riskOnA2 = mkRisk ''R2'' 30 [] [] [''A2'']"

text \<open>
  The store of the graph scenario: \<open>R1\<close> (probability 80) lists \<open>R2\<close> with strength
  0.5, \<open>R2\<close> has probability \<open>p\<close> and no relation. \<open>graphHeap p q\<close> is that store
  with the two working copies behind the two input objects, the copy of \<open>R2\<close> at
  probability \<open>q\<close>.
\<close>

definition graphR1 :: Risk where
  "graphR1 = mkRisk ''R1'' 80 [] [relationTo ''R2'' 0.5] []"

definition graphR2 :: "real \<Rightarrow> Risk" where
  "graphR2 p = mkRisk ''R2'' p [] [] []"

text \<open>The input of a store with two risks and no activity.\<close>

definition pairInput :: Input where
  "pairInput = \<lparr> activities = [], risks = [0, 1] \<rparr>"

definition graphStore :: "real \<Rightarrow> heap" where
  "graphStore p = \<lparr> risk_objs = [graphR1, graphR2 p], act_objs = [] \<rparr>"

definition graphHeap :: "real \<Rightarrow> real \<Rightarrow> heap" where
  "graphHeap p q = \<lparr> risk_objs = [graphR1, graphR2 p, graphR1, graphR2 q], act_objs = [] \<rparr>"

text \<open>A store with two risks of the same id, at probabilities 10 and 90.\<close>

definition twinStore :: heap where
  "twinStore = \<lparr> risk_objs = [mkRisk ''R'' 10 [] [] [], mkRisk ''R'' 90 [] [] []], act_objs = [] \<rparr>"

definition twinHeap :: heap where
  "twinHeap = \<lparr> risk_objs = risk_objs twinStore @ risk_objs twinStore, act_objs = [] \<rparr>"

text \<open>A store for a whole run: the two scenario activities and the graph's risks.\<close>

definition runStore :: heap where
  "runStore = \<lparr> risk_objs = [graphR1, graphR2 10], act_objs = [rawA1, rawA2] \<rparr>"

definition runInput :: Input where
  "runInput = \<lparr> activities = [0, 1], risks = [0, 1] \<rparr>"

text \<open>
  A platform whose random values alternate between a quarter and three quarters, and a
  call with the simulation on and a deadline of 20 days.
\<close>

definition exampleMath :: Math where
  "exampleMath =
     \<lparr> math_random = (\<lambda>i. if even i then 1 / 4 else 3 / 4), math_sqrt = sqrt \<rparr>"

definition simulationOptions :: Options where
  "simulationOptions =
     \<lparr> enableMonteCarlo = True, monteCarloIterations = 5000, deadline = Some 20,
       budget = None \<rparr>"

section \<open>Sensitivity\<close>



section \<open>The behaviour score is not always between 0 and 100\<close>

lemma threshold_bounds: "2 ^ 1023 \<le> overflowThreshold" "overflowThreshold \<le> 2 ^ 1024"
  by (simp_all add: overflowThreshold_def)

lemma rounded_exact: "\<bar>r\<bar> < overflowThreshold \<Longrightarrow> rounded r = Num r"
  by (auto simp: rounded_def)

lemma clamp_double:
  "js_max (Num 0) (js_min (Num 100) x) = NotANumber \<longleftrightarrow> x = NotANumber"
  "js_max (Num 0) (js_min (Num 100) x) = Num y \<Longrightarrow> 0 \<le> y \<and> y \<le> 100"
  by (cases x; auto)+

lemma overflow_example: "overflowThreshold \<le> 2 ^ 700 * 2 ^ 700"
proof -
  have "(2::real) ^ 1024 \<le> 2 ^ 1400" by (rule power_increasing) simp_all
  moreover have "(2::real) ^ 700 * 2 ^ 700 = 2 ^ 1400" by (simp add: power_add [symmetric])
  ultimately show ?thesis using threshold_bounds(2) by linarith
qed

lemma normalizeValue_double_plus: "normalizeValue_double (Num (2 ^ 700)) (Num (1 / 2 ^ 700)) = PlusInfinity"
  using overflow_example by (simp add: normalizeValue_double_def rounded_def infinityOf_def)

lemma normalizeValue_double_minus: "normalizeValue_double (Num (- (2 ^ 700))) (Num (1 / 2 ^ 700)) = MinusInfinity"
  using overflow_example threshold_bounds by (simp add: normalizeValue_double_def rounded_def infinityOf_def)

text \<open>
  Claim C4 on the code. The clamp \<^verbatim>\<open>Math.max(0, Math.min(100, _))\<close> lets \<^verbatim>\<open>NaN\<close>
  through. For every risk, roster and activity list: with the finite arguments
  \<open>2 ^ 700\<close> and \<open>- 2 ^ 700\<close> for the expected impacts over the maxima \<open>2 ^ -700\<close>
  the two normalised impacts overflow to plus and minus infinity, their weighted sum is
  \<^verbatim>\<open>NaN\<close> and so is the score; and with an infinite expected impact over an infinite
  maximum, which the orchestrator passes once an expected impact has overflowed, the
  quotient is \<^verbatim>\<open>NaN\<close> and so is the score. The claim has a value between 0 and 100.
\<close>

theorem calculateBehaviorScore_double_nan:
  "calculateBehaviorScore_double risk (Num (2 ^ 700)) (Num (- (2 ^ 700))) allRisks acts
       (Num (1 / 2 ^ 700)) (Num (1 / 2 ^ 700)) = NotANumber
   \<and> calculateBehaviorScore_double risk PlusInfinity (Num 0) allRisks acts PlusInfinity (Num 1)
       = NotANumber"
proof -
  have "rawBehaviorScore_double risk (Num (2 ^ 700)) (Num (- (2 ^ 700))) allRisks acts
       (Num (1 / 2 ^ 700)) (Num (1 / 2 ^ 700)) = NotANumber"
    unfolding rawBehaviorScore_double_def normalizeValue_double_plus normalizeValue_double_minus
    by (simp add: infinityOf_def js_sub_def)
  moreover have "normalizeValue_double PlusInfinity PlusInfinity = NotANumber"
    by (simp add: normalizeValue_double_def)
  then have "rawBehaviorScore_double risk PlusInfinity (Num 0) allRisks acts PlusInfinity (Num 1)
       = NotANumber"
    by (simp add: rawBehaviorScore_double_def js_sub_def)
  ultimately show ?thesis by (simp add: calculateBehaviorScore_double_def)
qed

text \<open>
  Apart from \<^verbatim>\<open>NaN\<close> the clamp does what its comment says: the score on doubles is
  \<^verbatim>\<open>NaN\<close> or a number between 0 and 100, the infinities included in the clamp.
\<close>

lemma calculateBehaviorScore_double_range:
  "calculateBehaviorScore_double risk expTime expCost allRisks acts maxTime maxCost = NotANumber
   \<or> (\<exists>y. calculateBehaviorScore_double risk expTime expCost allRisks acts maxTime maxCost = Num y
          \<and> 0 \<le> y \<and> y \<le> 100)"
  unfolding calculateBehaviorScore_double_def
  by (cases "rawBehaviorScore_double risk expTime expCost allRisks acts maxTime maxCost") auto

lemma js_exact:
  "\<bar>a * b\<bar> < overflowThreshold \<Longrightarrow> js_mul (Num a) (Num b) = Num (a * b)"
  "\<bar>a + b\<bar> < overflowThreshold \<Longrightarrow> js_add (Num a) (Num b) = Num (a + b)"
  "\<bar>a - b\<bar> < overflowThreshold \<Longrightarrow> js_sub (Num a) (Num b) = Num (a - b)"
  "b \<noteq> 0 \<Longrightarrow> \<bar>a / b\<bar> < overflowThreshold \<Longrightarrow> js_div (Num a) (Num b) = Num (a / b)"
  by (simp_all add: js_sub_def rounded_exact)

lemma below_threshold: "x \<le> 4 * 2 ^ 1000 \<Longrightarrow> x < overflowThreshold"
proof -
  have "(4::real) * 2 ^ 1000 = 2 ^ 1002" by simp
  moreover have "(2::real) ^ 1002 < 2 ^ 1023" by (rule power_strict_increasing) simp_all
  ultimately show "x \<le> 4 * 2 ^ 1000 \<Longrightarrow> x < overflowThreshold"
    using threshold_bounds(1) by linarith
qed

lemma normalizeValue_double_exact:
  assumes "\<bar>normalizeValue v maxValue\<bar> \<le> 2 ^ 1000"
  shows "normalizeValue_double (Num v) (Num maxValue) = Num (normalizeValue v maxValue)"
proof (cases "maxValue = 0")
  case True
  then show ?thesis by (simp add: normalizeValue_double_def normalizeValue_def)
next
  case False
  define B :: real where "B = 2 ^ 1000"
  define x where "x = v / maxValue"
  have B: "0 \<le> B" by (simp add: B_def)
  from assms False have 1: "\<bar>x * 100\<bar> \<le> B" by (simp add: normalizeValue_def x_def B_def)
  have "\<bar>x * 100\<bar> = \<bar>x\<bar> * 100" by (simp add: abs_mult)
  with 1 have 2: "\<bar>x\<bar> \<le> B" by linarith
  have "js_div (Num v) (Num maxValue) = Num x"
    unfolding x_def using False
  proof (rule js_exact(4))
    show "\<bar>v / maxValue\<bar> < overflowThreshold"
      using 2 B unfolding x_def B_def by (intro below_threshold) linarith
  qed
  moreover have "js_mul (Num x) (Num 100) = Num (x * 100)"
  proof (rule js_exact(1))
    show "\<bar>x * 100\<bar> < overflowThreshold"
      using 1 B unfolding B_def by (intro below_threshold) linarith
  qed
  ultimately show ?thesis
    using False by (simp add: normalizeValue_double_def normalizeValue_def x_def)
qed

text \<open>
  Where the normalised impacts and the centrality stay below \<open>2 ^ 1000\<close> nothing
  overflows, and the score on doubles is the score on reals.
\<close>

lemma calculateBehaviorScore_double_exact:
  assumes "\<bar>normalizeValue expTime maxTime\<bar> \<le> 2 ^ 1000"
    and "\<bar>normalizeValue expCost maxCost\<bar> \<le> 2 ^ 1000"
    and "\<bar>calculateDependencyCentrality risk allRisks\<bar> \<le> 2 ^ 1000"
  shows "calculateBehaviorScore_double risk (Num expTime) (Num expCost) allRisks acts
           (Num maxTime) (Num maxCost)
         = Num (calculateBehaviorScore risk expTime expCost allRisks acts maxTime maxCost)"
proof -
  define B :: real where "B = 2 ^ 1000"
  define nt where "nt = normalizeValue expTime maxTime"
  define nc where "nc = normalizeValue expCost maxCost"
  define c where "c = calculateDependencyCentrality risk allRisks"
  define f where "f = calculateTimeSensitivityFlag risk acts"
  define d where "d = calculateDetectabilityScore risk"
  have "(2::real) ^ 5 \<le> 2 ^ 1000" by (rule power_increasing) simp_all
  then have B: "32 \<le> B" by (simp add: B_def)
  have t: "\<And>x. \<bar>x\<bar> \<le> 4 * B \<Longrightarrow> \<bar>x\<bar> < overflowThreshold"
    unfolding B_def by (rule below_threshold)
  have b: "\<bar>nt\<bar> \<le> B" "\<bar>nc\<bar> \<le> B" "\<bar>c\<bar> \<le> B"
    using assms by (simp_all add: nt_def nc_def c_def B_def)
  have f: "0 \<le> f" "f \<le> 1" by (simp_all add: f_def calculateTimeSensitivityFlag_def)
  have d: "0 \<le> d" "d \<le> 1" by (simp_all add: d_def calculateDetectabilityScore_def)
  have n: "normalizeValue_double (Num expTime) (Num maxTime) = Num nt"
    "normalizeValue_double (Num expCost) (Num maxCost) = Num nc"
    using assms by (simp_all add: nt_def nc_def normalizeValue_double_exact)
  have m1: "js_mul (Num 0.35) (Num nt) = Num (0.35 * nt)"
    using b B by (intro js_exact(1) t) (simp add: abs_mult)
  have m2: "js_mul (Num 0.25) (Num nc) = Num (0.25 * nc)"
    using b B by (intro js_exact(1) t) (simp add: abs_mult)
  have m3: "js_mul (Num 0.2) (Num c) = Num (0.2 * c)"
    using b B by (intro js_exact(1) t) (simp add: abs_mult)
  have m4: "js_mul (Num 0.15) (Num f) = Num (0.15 * f)"
    using f B by (intro js_exact(1) t) (simp add: abs_mult)
  have m5: "js_mul (Num (0.15 * f)) (Num 100) = Num (0.15 * f * 100)"
    using f B by (intro js_exact(1) t) (simp add: abs_mult)
  have m6: "js_mul (Num 0.05) (Num d) = Num (0.05 * d)"
    using d B by (intro js_exact(1) t) (simp add: abs_mult)
  have m7: "js_mul (Num (0.05 * d)) (Num 100) = Num (0.05 * d * 100)"
    using d B by (intro js_exact(1) t) (simp add: abs_mult)
  have a1: "js_add (Num (0.35 * nt)) (Num (0.25 * nc)) = Num (0.35 * nt + 0.25 * nc)"
    using b B by (intro js_exact(2) t) (simp; linarith)
  have a2: "js_add (Num (0.35 * nt + 0.25 * nc)) (Num (0.2 * c))
      = Num (0.35 * nt + 0.25 * nc + 0.2 * c)"
    using b B by (intro js_exact(2) t) (simp; linarith)
  have a3: "js_add (Num (0.35 * nt + 0.25 * nc + 0.2 * c)) (Num (0.15 * f * 100))
      = Num (0.35 * nt + 0.25 * nc + 0.2 * c + 0.15 * f * 100)"
    using b B f by (intro js_exact(2) t) (simp; linarith)
  have a4: "js_sub (Num (0.35 * nt + 0.25 * nc + 0.2 * c + 0.15 * f * 100)) (Num (0.05 * d * 100))
      = Num (0.35 * nt + 0.25 * nc + 0.2 * c + 0.15 * f * 100 - 0.05 * d * 100)"
    using b B f d by (intro js_exact(3) t) (simp; linarith)
  have raw: "rawBehaviorScore_double risk (Num expTime) (Num expCost) allRisks acts
           (Num maxTime) (Num maxCost)
      = Num (rawBehaviorScore risk expTime expCost allRisks acts maxTime maxCost)"
    unfolding rawBehaviorScore_double_def rawBehaviorScore_def n c_def [symmetric]
      f_def [symmetric] d_def [symmetric] nt_def [symmetric] nc_def [symmetric]
    by (simp only: m1 m2 m3 m4 m5 m6 m7 a1 a2 a3 a4)
  show ?thesis
    unfolding calculateBehaviorScore_double_def calculateBehaviorScore_def raw by simp
qed

section \<open>Detectability and the behaviour score\<close>

lemma rawBehaviorScore_trigger:
  "rawBehaviorScore (risk\<lparr>trigger := t\<rparr>) expTime expCost allRisks acts maxTime maxCost
     = rawBehaviorScore risk expTime expCost allRisks acts maxTime maxCost
       + 5 * calculateDetectabilityScore risk
       - 5 * calculateDetectabilityScore (risk\<lparr>trigger := t\<rparr>)"
  by (simp add: rawBehaviorScore_def calculateDependencyCentrality_def riskDegree_def
      calculateTimeSensitivityFlag_def)

lemma detect_empty: "trim (trigger risk) = [] \<Longrightarrow> calculateDetectabilityScore risk = 0.5"
  by (simp add: calculateDetectabilityScore_def)

lemma detect_nonempty: "trim (trigger risk) \<noteq> [] \<Longrightarrow> calculateDetectabilityScore risk = 1"
  by (auto simp: calculateDetectabilityScore_def trim_def)


lemma example_detectability:
  "calculateDetectabilityScore silentRisk = 0.5"
  "calculateDetectabilityScore triggeredRisk = 1"
  by (simp_all add: calculateDetectabilityScore_def silentRisk_def triggeredRisk_def
      mkRisk_def trim_def is_space_def)

lemma example_scores:
  "calculateBehaviorScore silentRisk 0 0 [silentRisk] [] 1 1 = 17.5"
  "calculateBehaviorScore triggeredRisk 0 0 [silentRisk] [] 1 1 = 15"
proof -
  have c: "calculateDependencyCentrality silentRisk [silentRisk] = 100"
    "calculateDependencyCentrality triggeredRisk [silentRisk] = 100"
    by (simp_all add: calculateDependencyCentrality_def riskDegree_def incomingCount_def
        max_with_one_def silentRisk_def triggeredRisk_def mkRisk_def relationTo_def)
  have f: "calculateTimeSensitivityFlag silentRisk [] = 0"
    "calculateTimeSensitivityFlag triggeredRisk [] = 0"
    by (simp_all add: calculateTimeSensitivityFlag_def)
  show "calculateBehaviorScore silentRisk 0 0 [silentRisk] [] 1 1 = 17.5"
    by (simp add: calculateBehaviorScore_def rawBehaviorScore_def normalizeValue_def c f
        example_detectability)
  show "calculateBehaviorScore triggeredRisk 0 0 [silentRisk] [] 1 1 = 15"
    by (simp add: calculateBehaviorScore_def rawBehaviorScore_def normalizeValue_def c f
        example_detectability)
qed

text \<open>
  Claim C2, as stated, fails: the detectability scores are 0.5 and 1 as claimed, but the
  risk with the trigger scores 15 and the one without scores 17.5, with the same
  roster, activities and maxima. The score subtracts \<open>0.05 \<times> detectability \<times> 100\<close>.
\<close>

theorem detectability_lowers_score_counterexample:
  "calculateDetectabilityScore silentRisk = 0.5
   \<and> calculateDetectabilityScore triggeredRisk = 1
   \<and> triggeredRisk = silentRisk\<lparr>trigger := ''supplier delay''\<rparr>
   \<and> calculateBehaviorScore silentRisk 0 0 [silentRisk] [] 1 1 = 17.5
   \<and> calculateBehaviorScore triggeredRisk 0 0 [silentRisk] [] 1 1 = 15
   \<and> \<not> (calculateBehaviorScore silentRisk 0 0 [silentRisk] [] 1 1
          < calculateBehaviorScore triggeredRisk 0 0 [silentRisk] [] 1 1)"
proof -
  have "triggeredRisk = silentRisk\<lparr>trigger := ''supplier delay''\<rparr>"
    by (simp add: triggeredRisk_def)
  then show ?thesis
    by (simp only: example_detectability example_scores) simp
qed

text \<open>
  Claim C2, amended. For two risks that differ in the trigger only, one trigger empty
  after trim and the other not, the detectability score is 0.5 for the first and 1 for
  the second, and the behaviour score of the risk with the trigger is never higher than
  that of the risk without: it is strictly lower unless the clamp to the interval from
  0 to 100 holds both at the same bound.
\<close>

theorem detectability_lowers_score:
  assumes "trim (trigger risk) = []" and "trim t \<noteq> []"
  shows "calculateDetectabilityScore risk = 0.5
   \<and> calculateDetectabilityScore (risk\<lparr>trigger := t\<rparr>) = 1
   \<and> calculateBehaviorScore (risk\<lparr>trigger := t\<rparr>) expTime expCost allRisks acts maxTime maxCost
        \<le> calculateBehaviorScore risk expTime expCost allRisks acts maxTime maxCost
   \<and> (0 < calculateBehaviorScore risk expTime expCost allRisks acts maxTime maxCost
        \<and> calculateBehaviorScore (risk\<lparr>trigger := t\<rparr>) expTime expCost allRisks acts maxTime maxCost < 100
       \<longrightarrow> calculateBehaviorScore (risk\<lparr>trigger := t\<rparr>) expTime expCost allRisks acts maxTime maxCost
        < calculateBehaviorScore risk expTime expCost allRisks acts maxTime maxCost)"
proof -
  have d1: "calculateDetectabilityScore risk = 0.5" using assms(1) by (rule detect_empty)
  have d2: "calculateDetectabilityScore (risk\<lparr>trigger := t\<rparr>) = 1"
    using assms(2) by (simp add: detect_nonempty)
  have r: "rawBehaviorScore (risk\<lparr>trigger := t\<rparr>) expTime expCost allRisks acts maxTime maxCost
     = rawBehaviorScore risk expTime expCost allRisks acts maxTime maxCost - 2.5"
    by (simp add: rawBehaviorScore_trigger d1 d2)
  show ?thesis
    unfolding calculateBehaviorScore_def r using d1 d2 by (auto simp: min_def max_def)
qed

theorem detectability_lowers_score_witness:
  "calculateDetectabilityScore silentRisk = 0.5
   \<and> calculateDetectabilityScore triggeredRisk = 1
   \<and> calculateBehaviorScore triggeredRisk 0 0 [silentRisk] [] 1 1
        \<le> calculateBehaviorScore silentRisk 0 0 [silentRisk] [] 1 1
   \<and> calculateBehaviorScore triggeredRisk 0 0 [silentRisk] [] 1 1
        < calculateBehaviorScore silentRisk 0 0 [silentRisk] [] 1 1"
proof -
  have 1: "trim (trigger silentRisk) = []"
    by (simp add: silentRisk_def mkRisk_def trim_def)
  have 2: "trim ''supplier delay'' \<noteq> []"
    by (simp add: trim_def is_space_def)
  have 3: "0 < calculateBehaviorScore silentRisk 0 0 [silentRisk] [] 1 1"
    "calculateBehaviorScore triggeredRisk 0 0 [silentRisk] [] 1 1 < 100"
    by (simp_all add: example_scores)
  show ?thesis
    using detectability_lowers_score [OF 1 2, of 0 0 "[silentRisk]" "[]" 1 1] 3
    by (simp add: triggeredRisk_def)
qed

section \<open>Enrichment and the single-risk scenario\<close>

lemma enrich_example:
  "enrichActivities exampleParse [rawA1, rawA2] = [enrichedA1, enrichedA2]"
  by (simp add: enrichActivities_def enrichActivity_def rawA1_def rawA2_def enrichedA1_def
      enrichedA2_def calculateDurationDays_def exampleParse_def trim_def is_space_def)

text \<open>
  Claim C6. For the two enriched Level 2 activities \<open>A1\<close> (10 days, cost 1000) and
  \<open>A2\<close> (5 days, cost 500) and the risk \<open>R1\<close> (probability 50, time impact 20, cost
  impact 10, affecting both), \<^verbatim>\<open>calculateSingleRisk\<close> returns the duration sum 15, the
  cost sum 1500, 3 added days, the expected time impact 1.5, the added cost 150 and the
  expected cost impact 75, whatever the roster and the maxima.
\<close>

theorem calculateSingleRisk_scenario:
  "affectedDurationSum (calculateSingleRisk parse scenarioR1 [enrichedA1, enrichedA2] allRisks maxTime maxCost) = 15
   \<and> affectedCostSum (calculateSingleRisk parse scenarioR1 [enrichedA1, enrichedA2] allRisks maxTime maxCost) = 1500
   \<and> addedDays (calculateSingleRisk parse scenarioR1 [enrichedA1, enrichedA2] allRisks maxTime maxCost) = 3
   \<and> expectedTimeImpact (calculateSingleRisk parse scenarioR1 [enrichedA1, enrichedA2] allRisks maxTime maxCost) = 1.5
   \<and> addedCost (calculateSingleRisk parse scenarioR1 [enrichedA1, enrichedA2] allRisks maxTime maxCost) = 150
   \<and> expectedCostImpact (calculateSingleRisk parse scenarioR1 [enrichedA1, enrichedA2] allRisks maxTime maxCost) = 75"
proof -
  have d: "getAffectedDurationSum parse scenarioR1 [enrichedA1, enrichedA2] = 15"
    by (simp add: getAffectedDurationSum_def activityDuration_def scenarioR1_def mkRisk_def
        enrichedA1_def enrichedA2_def rawA1_def rawA2_def)
  have c: "getAffectedCostSum scenarioR1 [enrichedA1, enrichedA2] = 1500"
    by (simp add: getAffectedCostSum_def activityCost_def scenarioR1_def mkRisk_def
        enrichedA1_def enrichedA2_def rawA1_def rawA2_def)
  have t: "calculateTimeImpact scenarioR1 15 = (3, 1.5)"
    by (simp add: calculateTimeImpact_def scenarioR1_def mkRisk_def)
  have k: "calculateCostImpact scenarioR1 1500 = (150, 75)"
    by (simp add: calculateCostImpact_def scenarioR1_def mkRisk_def)
  show ?thesis
    by (simp add: calculateSingleRisk_def d c t k)
qed

lemma enrichActivity_idem: "enrichActivity parse (enrichActivity parse a) = enrichActivity parse a"
  by (simp add: enrichActivity_def)

lemma calculateDurationDays_invalid:
  "s = [] \<or> e = [] \<or> parse s = None \<or> parse e = None \<Longrightarrow> calculateDurationDays parse s e = 0"
  by (auto simp: calculateDurationDays_def split: option.splits)

text \<open>
  Claim C5. Enriching an enriched list gives the same list again (so the same
  \<open>durationDays\<close> and \<open>baselineCost\<close> for every activity). The enriched list has one
  activity for each activity of the input, in order, equal to it in every field but
  the two derived ones; its \<open>baselineCost\<close> is the cost, and its \<open>durationDays\<close> is 0
  for a Level 1 activity and for a Level 2 activity whose start or end date is empty or
  does not parse, and the calendar-day difference for a Level 2 activity with both
  dates.
\<close>

theorem enrichActivities_idempotent:
  "enrichActivities parse (enrichActivities parse acts) = enrichActivities parse acts
   \<and> length (enrichActivities parse acts) = length acts
   \<and> (\<forall>i < length acts.
         (enrichActivities parse acts ! i)\<lparr>durationDays := None, baselineCost := None\<rparr>
           = (acts ! i)\<lparr>durationDays := None, baselineCost := None\<rparr>
         \<and> baselineCost (enrichActivities parse acts ! i) = Some (cost (acts ! i))
         \<and> (level (acts ! i) = 1 \<longrightarrow> durationDays (enrichActivities parse acts ! i) = Some 0)
         \<and> (level (acts ! i) = 2
              \<and> (start_date (acts ! i) = [] \<or> end_date (acts ! i) = []
                   \<or> parse (start_date (acts ! i)) = None \<or> parse (end_date (acts ! i)) = None)
              \<longrightarrow> durationDays (enrichActivities parse acts ! i) = Some 0)
         \<and> (level (acts ! i) = 2 \<and> start_date (acts ! i) \<noteq> [] \<and> end_date (acts ! i) \<noteq> []
              \<longrightarrow> durationDays (enrichActivities parse acts ! i)
                    = Some (calculateDurationDays parse (start_date (acts ! i)) (end_date (acts ! i)))))"
proof (intro conjI allI impI)
  show "enrichActivities parse (enrichActivities parse acts) = enrichActivities parse acts"
    by (simp add: enrichActivities_def enrichActivity_idem)
  show "length (enrichActivities parse acts) = length acts"
    by (simp add: enrichActivities_def)
next
  fix i assume i: "i < length acts"
  then have e: "enrichActivities parse acts ! i = enrichActivity parse (acts ! i)"
    by (simp add: enrichActivities_def)
  show "(enrichActivities parse acts ! i)\<lparr>durationDays := None, baselineCost := None\<rparr>
           = (acts ! i)\<lparr>durationDays := None, baselineCost := None\<rparr>"
    by (simp add: e enrichActivity_def)
  show "baselineCost (enrichActivities parse acts ! i) = Some (cost (acts ! i))"
    by (simp add: e enrichActivity_def)
  { assume "level (acts ! i) = 1"
    then show "durationDays (enrichActivities parse acts ! i) = Some 0"
      by (simp add: e enrichActivity_def) }
  { assume "level (acts ! i) = 2
        \<and> (start_date (acts ! i) = [] \<or> end_date (acts ! i) = []
             \<or> parse (start_date (acts ! i)) = None \<or> parse (end_date (acts ! i)) = None)"
    then show "durationDays (enrichActivities parse acts ! i) = Some 0"
      using calculateDurationDays_invalid [of "start_date (acts ! i)" "end_date (acts ! i)" parse]
      by (auto simp: e enrichActivity_def) }
  { assume "level (acts ! i) = 2 \<and> start_date (acts ! i) \<noteq> [] \<and> end_date (acts ! i) \<noteq> []"
    then show "durationDays (enrichActivities parse acts ! i)
        = Some (calculateDurationDays parse (start_date (acts ! i)) (end_date (acts ! i)))"
      by (simp add: e enrichActivity_def) }
qed

theorem enrichActivities_idempotent_witness:
  "enrichActivities exampleParse
       (enrichActivities exampleParse [rawA1, artifactG, rawA2\<lparr>end_date := ''soon''\<rparr>])
     = enrichActivities exampleParse [rawA1, artifactG, rawA2\<lparr>end_date := ''soon''\<rparr>]
   \<and> length (enrichActivities exampleParse [rawA1, artifactG, rawA2\<lparr>end_date := ''soon''\<rparr>]) = 3
   \<and> durationDays
        (enrichActivities exampleParse [rawA1, artifactG, rawA2\<lparr>end_date := ''soon''\<rparr>] ! 0)
       = Some 10
   \<and> durationDays
        (enrichActivities exampleParse [rawA1, artifactG, rawA2\<lparr>end_date := ''soon''\<rparr>] ! 1)
       = Some 0
   \<and> durationDays
        (enrichActivities exampleParse [rawA1, artifactG, rawA2\<lparr>end_date := ''soon''\<rparr>] ! 2)
       = Some 0
   \<and> baselineCost
        (enrichActivities exampleParse [rawA1, artifactG, rawA2\<lparr>end_date := ''soon''\<rparr>] ! 2)
       = Some 500"
proof -
  let ?acts = "[rawA1, artifactG, rawA2\<lparr>end_date := ''soon''\<rparr>]"
  note t = enrichActivities_idempotent [of exampleParse ?acts]
  have i: "0 < length ?acts" "1 < length ?acts" "2 < length ?acts" by simp_all
  have a0: "level (?acts ! 0) = 2 \<and> start_date (?acts ! 0) \<noteq> [] \<and> end_date (?acts ! 0) \<noteq> []"
    by (simp add: rawA1_def)
  have d0: "calculateDurationDays exampleParse (start_date (?acts ! 0)) (end_date (?acts ! 0)) = 10"
    by (simp add: rawA1_def calculateDurationDays_def exampleParse_def trim_def is_space_def)
  have a1: "level (?acts ! 1) = 1" by (simp add: artifactG_def)
  have a2: "level (?acts ! 2) = 2 \<and> (start_date (?acts ! 2) = [] \<or> end_date (?acts ! 2) = []
      \<or> exampleParse (start_date (?acts ! 2)) = None \<or> exampleParse (end_date (?acts ! 2)) = None)"
    by (simp add: rawA2_def exampleParse_def)
  have c2: "cost (?acts ! 2) = 500" by (simp add: rawA2_def)
  from t have idem: "enrichActivities exampleParse (enrichActivities exampleParse ?acts)
      = enrichActivities exampleParse ?acts"
    and len: "length (enrichActivities exampleParse ?acts) = length ?acts"
    and all: "\<forall>i < length ?acts.
         (enrichActivities exampleParse ?acts ! i)\<lparr>durationDays := None, baselineCost := None\<rparr>
           = (?acts ! i)\<lparr>durationDays := None, baselineCost := None\<rparr>
         \<and> baselineCost (enrichActivities exampleParse ?acts ! i) = Some (cost (?acts ! i))
         \<and> (level (?acts ! i) = 1 \<longrightarrow> durationDays (enrichActivities exampleParse ?acts ! i) = Some 0)
         \<and> (level (?acts ! i) = 2
              \<and> (start_date (?acts ! i) = [] \<or> end_date (?acts ! i) = []
                   \<or> exampleParse (start_date (?acts ! i)) = None
                   \<or> exampleParse (end_date (?acts ! i)) = None)
              \<longrightarrow> durationDays (enrichActivities exampleParse ?acts ! i) = Some 0)
         \<and> (level (?acts ! i) = 2 \<and> start_date (?acts ! i) \<noteq> [] \<and> end_date (?acts ! i) \<noteq> []
              \<longrightarrow> durationDays (enrichActivities exampleParse ?acts ! i)
                    = Some (calculateDurationDays exampleParse (start_date (?acts ! i))
                              (end_date (?acts ! i))))"
    by blast+
  from all i(1) a0 d0 have r0: "durationDays (enrichActivities exampleParse ?acts ! 0) = Some 10"
    by metis
  from all i(2) a1 have r1: "durationDays (enrichActivities exampleParse ?acts ! 1) = Some 0"
    by blast
  from all i(3) a2 have r2: "durationDays (enrichActivities exampleParse ?acts ! 2) = Some 0"
    by blast
  from all i(3) c2 have r3: "baselineCost (enrichActivities exampleParse ?acts ! 2) = Some 500"
    by metis
  from len have l3: "length (enrichActivities exampleParse ?acts) = 3" by simp
  from idem l3 r0 r1 r2 r3 show ?thesis by blast
qed

section \<open>Combined scenarios\<close>

lemma selectRisks_nonempty:
  assumes "ids \<noteq> []" and "set ids \<subseteq> r_id ` set rs"
  shows "selectRisks ids rs \<noteq> []"
proof -
  from assms obtain i where i: "i \<in> set ids" by (cases ids) auto
  with assms obtain r where "r \<in> set rs" "r_id r = i" by auto
  with i have "r \<in> set (selectRisks ids rs)" by (simp add: selectRisks_def)
  then show ?thesis by auto
qed

text \<open>
  Claim C7. For two or more risk ids of the roster whose risks have no activity in
  common (in particular pairwise disjoint ones), \<^verbatim>\<open>calculateCombinedImpact\<close> returns the
  zeroed scenario: the four combined figures are 0.
\<close>

theorem calculateCombinedImpact_disjoint:
  assumes "2 \<le> length ids" and "set ids \<subseteq> r_id ` set rs"
    and "\<not> (\<exists>x. \<forall>r \<in> set rs. r_id r \<in> set ids \<longrightarrow> x \<in> set (affectedActivities r))"
  shows "calculateCombinedImpact parse ids rs acts = Some (zeroScenario ids)"
proof -
  have "ids \<noteq> []" using assms(1) by auto
  have "commonActivitiesOf (selectRisks ids rs) acts = []"
    unfolding commonActivitiesOf_def filter_empty_conv
  proof (intro ballI notI)
    fix a assume "a \<in> set acts"
      and "list_all (\<lambda>r. a_id a \<in> set (affectedActivities r)) (selectRisks ids rs) \<and> level a = 2"
    then have "\<forall>r \<in> set rs. r_id r \<in> set ids \<longrightarrow> a_id a \<in> set (affectedActivities r)"
      by (auto simp: list_all_iff selectRisks_def)
    with assms(3) show False by blast
  qed
  then show ?thesis by (simp add: calculateCombinedImpact_def Let_def)
qed

theorem calculateCombinedImpact_disjoint_witness:
  "calculateCombinedImpact exampleParse [''R1'', ''R2''] [riskOnA1, riskOnA2] [enrichedA1, enrichedA2]
     = Some (zeroScenario [''R1'', ''R2''])"
proof -
  have 1: "2 \<le> length [''R1'', ''R2'']" by simp
  have 2: "set [''R1'', ''R2''] \<subseteq> r_id ` set [riskOnA1, riskOnA2]"
    by (simp add: riskOnA1_def riskOnA2_def mkRisk_def)
  have 3: "\<not> (\<exists>x. \<forall>r \<in> set [riskOnA1, riskOnA2]. r_id r \<in> set [''R1'', ''R2'']
              \<longrightarrow> x \<in> set (affectedActivities r))"
    by (simp add: riskOnA1_def riskOnA2_def mkRisk_def)
  show ?thesis by (rule calculateCombinedImpact_disjoint [OF 1 2 3])
qed

section \<open>Validation of dates\<close>

lemma validateActivitiesStep_mono:
  "set (fst st) \<subseteq> set (fst (validateActivitiesStep parse st a))"
  by (cases st) (auto simp: validateActivitiesStep_def)

lemma validateActivitiesStep_has:
  "set (validateActivity parse a) \<subseteq> set (fst (validateActivitiesStep parse st a))"
  by (cases st) (auto simp: validateActivitiesStep_def)

lemma foldl_validateActivities_mono:
  "set (fst st) \<subseteq> set (fst (foldl (validateActivitiesStep parse) st acts))"
proof (induction acts arbitrary: st)
  case Nil show ?case by simp
next
  case (Cons a acts)
  show ?case using validateActivitiesStep_mono [of st parse a] Cons.IH [of "validateActivitiesStep parse st a"]
    by auto
qed

lemma foldl_validateActivities_has:
  "a \<in> set acts \<Longrightarrow>
     set (validateActivity parse a) \<subseteq> set (fst (foldl (validateActivitiesStep parse) st acts))"
proof (induction acts arbitrary: st)
  case Nil then show ?case by simp
next
  case (Cons b acts)
  show ?case
  proof (cases "a = b")
    case True
    then show ?thesis
      using validateActivitiesStep_has [of parse b st]
        foldl_validateActivities_mono [of "validateActivitiesStep parse st b" parse acts]
      by auto
  next
    case False
    with Cons.prems have "a \<in> set acts" by simp
    then show ?thesis using Cons.IH by simp
  qed
qed

lemma validateRisksStep_mono:
  "set (fst st) \<subseteq> set (fst (validateRisksStep ids st r))"
  by (cases st) (auto simp: validateRisksStep_def)

lemma foldl_validateRisks_mono:
  "set (fst st) \<subseteq> set (fst (foldl (validateRisksStep ids) st rs))"
proof (induction rs arbitrary: st)
  case Nil show ?case by simp
next
  case (Cons r rs)
  show ?case using validateRisksStep_mono [of st ids r] Cons.IH [of "validateRisksStep ids st r"]
    by auto
qed

lemma validateInput_has:
  assumes "a \<in> set acts"
  shows "set (validateActivity parse a) \<subseteq> set (validateInput parse acts rs)"
proof -
  define e0 where "e0 =
     (if length acts = 0
      then [\<lparr>field = ''activities'', message = ''At least one activity is required''\<rparr>]
      else [])
     @ (if length rs = 0
        then [\<lparr>field = ''risks'', message = ''At least one risk is required''\<rparr>]
        else [])"
  define F where "F = foldl (validateActivitiesStep parse) (e0, []) acts"
  have v: "validateInput parse acts rs = fst (foldl (validateRisksStep (snd F)) (fst F, []) rs)"
    unfolding validateInput_def Let_def split_beta F_def e0_def by (rule refl)
  have a: "set (validateActivity parse a) \<subseteq> set (fst F)"
    unfolding F_def by (rule foldl_validateActivities_has [OF assms])
  have b: "set (fst F) \<subseteq> set (fst (foldl (validateRisksStep (snd F)) (fst F, []) rs))"
    using foldl_validateRisks_mono [of "(fst F, [])" "snd F" rs] by simp
  from a b show ?thesis unfolding v by (rule subset_trans)
qed

text \<open>
  Claim C10. An activity with an empty start (end) date gets an error on the field
  \<open>start\<close> (\<open>end\<close>) from \<^verbatim>\<open>validateActivity\<close>, whatever its level; so
  \<^verbatim>\<open>validateInput\<close> reports every Level 1 activity without dates, which is how the
  data model has Level 1 activities.
\<close>

theorem validateActivity_dates_required:
  "(start_date a = [] \<longrightarrow>
      \<lparr>field = ''start'', message = ''Start date is required''\<rparr> \<in> set (validateActivity parse a))
   \<and> (end_date a = [] \<longrightarrow>
      \<lparr>field = ''end'', message = ''End date is required''\<rparr> \<in> set (validateActivity parse a))
   \<and> (a \<in> set acts \<and> level a = 1 \<and> start_date a = [] \<and> end_date a = [] \<longrightarrow>
      \<lparr>field = ''start'', message = ''Start date is required''\<rparr> \<in> set (validateInput parse acts rs)
      \<and> \<lparr>field = ''end'', message = ''End date is required''\<rparr> \<in> set (validateInput parse acts rs))"
proof -
  have s: "start_date a = [] \<Longrightarrow>
      \<lparr>field = ''start'', message = ''Start date is required''\<rparr> \<in> set (validateActivity parse a)"
    by (simp add: validateActivity_def)
  have e: "end_date a = [] \<Longrightarrow>
      \<lparr>field = ''end'', message = ''End date is required''\<rparr> \<in> set (validateActivity parse a)"
    by (simp add: validateActivity_def)
  show ?thesis using s e validateInput_has [of a acts parse rs] by blast
qed

theorem validateActivity_dates_required_witness:
  "\<lparr>field = ''start'', message = ''Start date is required''\<rparr>
      \<in> set (validateActivity exampleParse artifactG)
   \<and> \<lparr>field = ''end'', message = ''End date is required''\<rparr>
      \<in> set (validateActivity exampleParse artifactG)
   \<and> \<lparr>field = ''start'', message = ''Start date is required''\<rparr>
      \<in> set (validateInput exampleParse [rawA1, artifactG] [scenarioR1])
   \<and> \<lparr>field = ''end'', message = ''End date is required''\<rparr>
      \<in> set (validateInput exampleParse [rawA1, artifactG] [scenarioR1])"
  using validateActivity_dates_required [of artifactG exampleParse "[rawA1, artifactG]" "[scenarioR1]"]
  by (simp add: artifactG_def)

section \<open>The relaxation only raises probabilities of working copies\<close>

lemma relaxed_refl: "relaxed ps h h"
  by (simp add: relaxed_def)

lemma relaxed_trans:
  assumes "relaxed ps h h'" and "relaxed ps h' h''"
  shows "relaxed ps h h''"
  unfolding relaxed_def
proof (intro conjI allI impI)
  show "act_objs h'' = act_objs h" using assms by (simp add: relaxed_def)
  show "length (risk_objs h'') = length (risk_objs h)" using assms by (simp add: relaxed_def)
next
  fix a assume a: "a < length (risk_objs h)" and "a \<notin> set ps"
  then show "risk_objs h'' ! a = risk_objs h ! a" using assms by (simp add: relaxed_def)
next
  fix a assume a: "a < length (risk_objs h)"
  have 1: "risk_objs h' ! a = (risk_objs h ! a)\<lparr>probability := probability (risk_objs h' ! a)\<rparr>"
    using assms(1) a by (simp add: relaxed_def)
  have 2: "risk_objs h'' ! a = (risk_objs h' ! a)\<lparr>probability := probability (risk_objs h'' ! a)\<rparr>"
    using assms a by (simp add: relaxed_def)
  show "risk_objs h'' ! a = (risk_objs h ! a)\<lparr>probability := probability (risk_objs h'' ! a)\<rparr>"
    by (subst 2, subst 1) simp
next
  fix a assume a: "a < length (risk_objs h)" and b: "probability (risk_objs h ! a) \<le> 100"
  have 1: "probability (risk_objs h ! a) \<le> probability (risk_objs h' ! a)"
    "probability (risk_objs h' ! a) \<le> 100"
    using assms(1) a b by (simp_all add: relaxed_def)
  have 2: "probability (risk_objs h' ! a) \<le> probability (risk_objs h'' ! a)"
    "probability (risk_objs h'' ! a) \<le> 100"
    using assms a 1 by (simp_all add: relaxed_def)
  show "probability (risk_objs h ! a) \<le> probability (risk_objs h'' ! a)" using 1 2 by simp
  show "probability (risk_objs h'' ! a) \<le> 100" using 2 by simp
qed

lemma foldl_relaxed:
  assumes "\<And>h x. x \<in> set xs \<Longrightarrow> relaxed ps h (f h x)"
  shows "relaxed ps h (foldl f h xs)"
  using assms
proof (induction xs arbitrary: h)
  case Nil
  show ?case by (simp add: relaxed_refl)
next
  case (Cons x xs)
  have "relaxed ps h (f h x)" by (rule Cons.prems) simp
  moreover have "relaxed ps (f h x) (foldl f (f h x) xs)"
    by (rule Cons.IH) (simp add: Cons.prems)
  ultimately show ?case by (simp add: relaxed_trans)
qed

lemma nth_update_in_range:
  "a < length xs \<Longrightarrow> xs[c := v] ! a = (if a = c then v else xs ! a)"
  by (cases "a = c") simp_all

lemma set_probability_relaxed:
  assumes "cur \<in> set ps" and "probability (risk_at h cur) \<le> 100 \<longrightarrow> probability (risk_at h cur) \<le> p \<and> p \<le> 100"
  shows "relaxed ps h (set_probability cur p h)"
  using assms
  by (auto simp: relaxed_def set_probability_def risk_at_def nth_update_in_range)

lemma relaxStep_relaxed:
  assumes "cur \<in> set ps"
  shows "relaxed ps h (relaxStep rid cur h other)"
proof (cases "find (\<lambda>rel. riskId rel = rid) (relatedRisks (risk_at h other))")
  case None
  then show ?thesis by (simp add: relaxStep_def relaxed_refl)
next
  case (Some relation)
  show ?thesis
  proof (cases "strengthOrDefault relation * probability (risk_at h other) > 0.1")
    case True
    then have "relaxed ps h (set_probability cur
        (min 100 (probability (risk_at h cur) + strengthOrDefault relation * probability (risk_at h other))) h)"
      by (intro set_probability_relaxed assms) auto
    with Some True show ?thesis by (simp add: relaxStep_def Let_def)
  next
    case False
    with Some show ?thesis by (simp add: relaxStep_def Let_def relaxed_refl)
  qed
qed

lemma findPropagated_mem: "findPropagated ps h risk = Some cur \<Longrightarrow> cur \<in> set ps"
  by (auto simp: findPropagated_def find_Some_iff)

lemma relaxRisk_relaxed: "relaxed ps h (relaxRisk ps h risk)"
proof (cases "findPropagated ps h risk")
  case None
  then show ?thesis by (simp add: relaxRisk_def relaxed_refl)
next
  case (Some cur)
  then have "cur \<in> set ps" by (rule findPropagated_mem)
  then have "relaxed ps h (foldl (relaxStep (r_id (risk_at h risk)) cur) h ps)"
    by (intro foldl_relaxed relaxStep_relaxed)
  with Some show ?thesis by (simp add: relaxRisk_def)
qed

lemma relaxPass_relaxed: "relaxed ps h (relaxPass rs ps h)"
  unfolding relaxPass_def by (intro foldl_relaxed relaxRisk_relaxed)

lemma relaxPasses_relaxed: "relaxed ps h (relaxPasses rs ps h)"
  unfolding relaxPasses_def by (intro foldl_relaxed relaxPass_relaxed)

section \<open>The caller's objects are left alone\<close>

lemma fst_foldl_resultStep:
  "fst (foldl (resultStep ps h) (res, an) rs) = res @ resultsOf ps h rs"
proof (induction rs arbitrary: res an)
  case Nil
  show ?case by (simp add: resultsOf_def)
next
  case (Cons r rs)
  show ?case
  proof (cases "findPropagated ps h r")
    case None
    then show ?thesis using Cons.IH [of res an]
      by (simp add: resultStep_def resultsOf_def)
  next
    case (Some p)
    then show ?thesis
      using Cons.IH
      by (simp add: resultStep_def resultsOf_def)
  qed
qed

lemma analyze_propagationResults:
  "propagationResults (fst (analyzeRiskBehavior parse m opts inp h0)) =
     resultsOf (fst (propagatedHeap parse inp h0)) (snd (propagatedHeap parse inp h0)) (risks inp)"
  by (simp add: analyzeRiskBehavior_def propagatedHeap_def Let_def split_beta fst_foldl_resultStep)

lemma analyze_heap:
  "snd (analyzeRiskBehavior parse m opts inp h0) = snd (propagatedHeap parse inp h0)"
  by (simp add: analyzeRiskBehavior_def propagatedHeap_def Let_def split_beta)

lemma propagatedHeap_eq:
  "propagatedHeap parse inp h0 =
     (workingRefs inp h0, relaxPasses (risks inp) (workingRefs inp h0) (workingHeap parse inp h0))"
proof -
  have "risk_at (h0\<lparr>act_objs := xs\<rparr>) = risk_at h0" for xs
    by (rule ext) (simp add: risk_at_def)
  then show ?thesis
    by (simp add: propagatedHeap_def allocActivities_def copyRisks_def workingRefs_def
        workingHeap_def Let_def)
qed

lemma propagatedHeap_relaxed:
  "relaxed (workingRefs inp h0) (workingHeap parse inp h0) (snd (propagatedHeap parse inp h0))"
  by (simp add: propagatedHeap_eq relaxPasses_relaxed)

lemma propagatedHeap_old_risk:
  assumes "a < length (risk_objs h0)"
  shows "risk_objs (snd (propagatedHeap parse inp h0)) ! a = risk_objs h0 ! a"
proof -
  have "a \<notin> set (workingRefs inp h0)" using assms by (simp add: workingRefs_def)
  moreover have "a < length (risk_objs (workingHeap parse inp h0))"
    using assms by (simp add: workingHeap_def)
  ultimately have "risk_objs (snd (propagatedHeap parse inp h0)) ! a
      = risk_objs (workingHeap parse inp h0) ! a"
    using propagatedHeap_relaxed [of inp h0 parse] by (simp add: relaxed_def)
  also have "\<dots> = risk_objs h0 ! a" using assms by (simp add: workingHeap_def nth_append)
  finally show ?thesis .
qed

lemma propagatedHeap_length:
  "length (risk_objs (snd (propagatedHeap parse inp h0)))
     = length (risk_objs h0) + length (risks inp)"
  using propagatedHeap_relaxed [of inp h0 parse] by (simp add: relaxed_def workingHeap_def)

lemma propagatedHeap_activities:
  "act_objs (snd (propagatedHeap parse inp h0))
     = act_objs h0 @ enrichActivities parse (map (activity_at h0) (activities inp))"
  using propagatedHeap_relaxed [of inp h0 parse] by (simp add: relaxed_def workingHeap_def)

text \<open>
  Claim C9. After \<^verbatim>\<open>analyzeRiskBehavior\<close> every object of the caller's store is as it
  was: the store after the run starts with the store before it, so every risk and
  activity referenced by the input has all its fields unchanged, the probability among
  them. The relaxation has assigned to the working copies only.
\<close>

theorem analyzeRiskBehavior_frame:
  "take (length (risk_objs h)) (risk_objs (snd (analyzeRiskBehavior parse m opts inp h))) = risk_objs h
   \<and> take (length (act_objs h)) (act_objs (snd (analyzeRiskBehavior parse m opts inp h))) = act_objs h
   \<and> (wf_input h inp \<longrightarrow>
        (\<forall>a \<in> set (risks inp). risk_at (snd (analyzeRiskBehavior parse m opts inp h)) a = risk_at h a)
        \<and> (\<forall>a \<in> set (activities inp).
              activity_at (snd (analyzeRiskBehavior parse m opts inp h)) a = activity_at h a))"
proof (intro conjI impI ballI)
  show "take (length (risk_objs h)) (risk_objs (snd (analyzeRiskBehavior parse m opts inp h))) = risk_objs h"
    by (rule nth_equalityI)
      (simp_all add: analyze_heap propagatedHeap_length propagatedHeap_old_risk)
  show "take (length (act_objs h)) (act_objs (snd (analyzeRiskBehavior parse m opts inp h))) = act_objs h"
    by (simp add: analyze_heap propagatedHeap_activities)
next
  fix a assume "wf_input h inp" and "a \<in> set (risks inp)"
  then have "a < length (risk_objs h)" by (simp add: wf_input_def list_all_iff)
  then show "risk_at (snd (analyzeRiskBehavior parse m opts inp h)) a = risk_at h a"
    by (simp add: risk_at_def analyze_heap propagatedHeap_old_risk)
next
  fix a assume "wf_input h inp" and "a \<in> set (activities inp)"
  then have "a < length (act_objs h)" by (simp add: wf_input_def list_all_iff)
  then show "activity_at (snd (analyzeRiskBehavior parse m opts inp h)) a = activity_at h a"
    by (simp add: activity_at_def analyze_heap propagatedHeap_activities nth_append)
qed

theorem analyzeRiskBehavior_frame_witness:
  "wf_input runStore runInput
   \<and> risk_at (snd (analyzeRiskBehavior exampleParse exampleMath simulationOptions runInput runStore)) 1 = graphR2 10
   \<and> probability (risk_at (snd (analyzeRiskBehavior exampleParse exampleMath simulationOptions runInput runStore)) 1) = 10
   \<and> activity_at (snd (analyzeRiskBehavior exampleParse exampleMath simulationOptions runInput runStore)) 0 = rawA1"
proof -
  have wf: "wf_input runStore runInput"
    by (simp add: wf_input_def runStore_def runInput_def)
  have m: "1 \<in> set (risks runInput)" "0 \<in> set (activities runInput)"
    by (simp_all add: runInput_def)
  have v: "risk_at runStore 1 = graphR2 10" "activity_at runStore 0 = rawA1"
    "probability (graphR2 10) = 10"
    by (simp_all add: runStore_def risk_at_def activity_at_def graphR2_def mkRisk_def)
  from analyzeRiskBehavior_frame [of runStore exampleParse exampleMath simulationOptions runInput] wf m
  have "risk_at (snd (analyzeRiskBehavior exampleParse exampleMath simulationOptions runInput runStore)) 1 = risk_at runStore 1"
    "activity_at (snd (analyzeRiskBehavior exampleParse exampleMath simulationOptions runInput runStore)) 0 = activity_at runStore 0"
    by blast+
  with wf v show ?thesis by simp
qed

section \<open>The graph scenario\<close>

lemma relaxPasses_unfold:
  "relaxPasses rs ps h = relaxPass rs ps (relaxPass rs ps (relaxPass rs ps h))"
  by (simp add: relaxPasses_def upt_rec)

lemma pair_workingRefs: "workingRefs pairInput \<lparr>risk_objs = [r1, r2], act_objs = []\<rparr> = [2, 3]"
  by (simp add: workingRefs_def pairInput_def upt_rec)

lemma graph_workingHeap: "workingHeap parse pairInput (graphStore p) = graphHeap p p"
  by (simp add: workingHeap_def pairInput_def graphStore_def graphHeap_def risk_at_def
      enrichActivities_def)

lemma graph_find:
  "findPropagated [2, 3] (graphHeap p q) 0 = Some 2"
  "findPropagated [2, 3] (graphHeap p q) (Suc 0) = Some 3"
  by (simp_all add: findPropagated_def graphHeap_def graphR1_def graphR2_def mkRisk_def risk_at_def)

lemma graph_ids:
  "r_id (risk_at (graphHeap p q) 0) = ''R1''"
  "r_id (risk_at (graphHeap p q) (Suc 0)) = ''R2''"
  by (simp_all add: graphHeap_def graphR1_def graphR2_def mkRisk_def risk_at_def)

lemma graph_steps:
  "relaxStep ''R1'' 2 (graphHeap p q) 2 = graphHeap p q"
  "relaxStep ''R1'' 2 (graphHeap p q) 3 = graphHeap p q"
  "relaxStep ''R2'' 3 (graphHeap p q) 2 = graphHeap p (min 100 (q + 40))"
  "relaxStep ''R2'' 3 (graphHeap p q) 3 = graphHeap p q"
  by (simp_all add: relaxStep_def graphHeap_def graphR1_def graphR2_def mkRisk_def relationTo_def
      risk_at_def set_probability_def strengthOrDefault_def)

lemma graph_pass: "relaxPass [0, 1] [2, 3] (graphHeap p q) = graphHeap p (min 100 (q + 40))"
  by (simp add: relaxPass_def relaxRisk_def graph_find graph_ids graph_steps)

lemma graph_passes: "relaxPasses [0, 1] [2, 3] (graphHeap p q) = graphHeap p (min 100 (q + 120))"
proof -
  have "min 100 (min 100 (min 100 (q + 40) + 40) + 40) = min 100 (q + 120)"
    by (simp add: min_def)
  then show ?thesis by (simp only: relaxPasses_unfold graph_pass)
qed

lemma graph_propagatedHeap:
  "propagatedHeap parse pairInput (graphStore p) = ([2, 3], graphHeap p (min 100 (p + 120)))"
proof -
  have "workingRefs pairInput (graphStore p) = [2, 3]"
    unfolding graphStore_def by (rule pair_workingRefs)
  moreover have "risks pairInput = [0, 1]" by (simp add: pairInput_def)
  ultimately show ?thesis
    by (simp only: propagatedHeap_eq graph_workingHeap graph_passes)
qed

lemma graph_resultsOf:
  "resultsOf [2, 3] (graphHeap p q) [0, 1] =
     [\<lparr>p_riskId = ''R1'', originalProbability = 80, finalProbability = 80, propagationPath = []\<rparr>,
      \<lparr>p_riskId = ''R2'', originalProbability = p, finalProbability = q, propagationPath = []\<rparr>]"
  by (simp add: resultsOf_def graph_find graph_ids)
     (simp add: graphHeap_def graphR1_def graphR2_def mkRisk_def risk_at_def)

text \<open>
  Claim C1 on the code. With \<open>R1\<close> at probability 80 listing \<open>R2\<close> with strength 0.5
  and no other relation, each of the three passes adds 40 to the working probability of
  \<open>R2\<close>: the final probability is \<open>min 100 (p + 120)\<close> for an original \<open>p\<close>, so 100
  for \<open>p = 10\<close>, where the claim has 50.
\<close>

theorem graph_relaxation_three_passes:
  "propagationResults (fst (analyzeRiskBehavior parse m opts pairInput (graphStore p))) =
     [\<lparr>p_riskId = ''R1'', originalProbability = 80, finalProbability = 80, propagationPath = []\<rparr>,
      \<lparr>p_riskId = ''R2'', originalProbability = p, finalProbability = min 100 (p + 120),
        propagationPath = []\<rparr>]"
proof -
  have "risks pairInput = [0, 1]" by (simp add: pairInput_def)
  then show ?thesis
    by (simp only: analyze_propagationResults graph_propagatedHeap fst_conv snd_conv graph_resultsOf)
qed


section \<open>Two risks of one id\<close>

lemma twin_workingHeap: "workingHeap parse pairInput twinStore = twinHeap"
  by (simp add: workingHeap_def pairInput_def twinStore_def twinHeap_def risk_at_def
      enrichActivities_def)

lemma twin_find:
  "findPropagated [2, 3] twinHeap 0 = Some 2"
  "findPropagated [2, 3] twinHeap (Suc 0) = Some 2"
  by (simp_all add: findPropagated_def twinHeap_def twinStore_def mkRisk_def risk_at_def)

lemma twin_steps:
  "relaxStep rid 2 twinHeap 2 = twinHeap"
  "relaxStep rid 2 twinHeap 3 = twinHeap"
  by (simp_all add: relaxStep_def twinHeap_def twinStore_def mkRisk_def risk_at_def)

lemma twin_pass: "relaxPass [0, 1] [2, 3] twinHeap = twinHeap"
  by (simp add: relaxPass_def relaxRisk_def twin_find twin_steps)

lemma twin_propagatedHeap: "propagatedHeap parse pairInput twinStore = ([2, 3], twinHeap)"
proof -
  have "workingRefs pairInput twinStore = [2, 3]"
    unfolding twinStore_def by (rule pair_workingRefs)
  moreover have "risks pairInput = [0, 1]" by (simp add: pairInput_def)
  ultimately show ?thesis
    by (simp only: propagatedHeap_eq twin_workingHeap relaxPasses_unfold twin_pass)
qed

lemma twin_results:
  "propagationResults (fst (analyzeRiskBehavior parse m opts pairInput twinStore)) =
     [\<lparr>p_riskId = ''R'', originalProbability = 10, finalProbability = 10, propagationPath = []\<rparr>,
      \<lparr>p_riskId = ''R'', originalProbability = 90, finalProbability = 10, propagationPath = []\<rparr>]"
proof -
  have r: "risks pairInput = [0, 1]" by (simp add: pairInput_def)
  have "resultsOf [2, 3] twinHeap [0, 1] =
     [\<lparr>p_riskId = ''R'', originalProbability = 10, finalProbability = 10, propagationPath = []\<rparr>,
      \<lparr>p_riskId = ''R'', originalProbability = 90, finalProbability = 10, propagationPath = []\<rparr>]"
    by (simp add: resultsOf_def twin_find)
       (simp add: twinHeap_def twinStore_def mkRisk_def risk_at_def)
  with r show ?thesis
    by (simp only: analyze_propagationResults twin_propagatedHeap fst_conv snd_conv)
qed

text \<open>
  Claim C3, as stated, fails on a roster with two risks of one id, at probabilities 10
  and 90: both results report the working copy found first, so the second result has
  the original probability 90 and the final probability 10.
\<close>

theorem propagation_monotone_bounded_counterexample:
  "probability (risk_at twinStore 0) = 10 \<and> probability (risk_at twinStore 1) = 90
   \<and> risks pairInput = [0, 1]
   \<and> \<not> (\<forall>res \<in> set (propagationResults (fst (analyzeRiskBehavior exampleParse exampleMath defaultOptions pairInput twinStore))).
          originalProbability res \<le> finalProbability res \<and> finalProbability res \<le> 100)"
  by (simp add: twin_results) (simp add: twinStore_def mkRisk_def risk_at_def pairInput_def)


section \<open>Propagated probabilities\<close>

lemma workingRefs_nth:
  "i < length (risks inp) \<Longrightarrow> workingRefs inp h0 ! i = length (risk_objs h0) + i"
  by (simp add: workingRefs_def)

lemma workingRefs_mem:
  "p \<in> set (workingRefs inp h0) \<Longrightarrow>
     \<exists>i < length (risks inp). p = length (risk_objs h0) + i"
  by (auto simp: workingRefs_def intro: exI [of _ "p - length (risk_objs h0)"])

lemma workingHeap_copy:
  "i < length (risks inp) \<Longrightarrow>
     risk_objs (workingHeap parse inp h0) ! (length (risk_objs h0) + i) = risk_at h0 (risks inp ! i)"
  by (simp add: workingHeap_def nth_append)

text \<open>What the relaxation leaves of a working copy: everything but the probability.\<close>

lemma propagatedHeap_copy:
  assumes "i < length (risks inp)"
  shows "risk_at (snd (propagatedHeap parse inp h0)) (length (risk_objs h0) + i)
     = (risk_at h0 (risks inp ! i))
         \<lparr>probability :=
            probability (risk_at (snd (propagatedHeap parse inp h0)) (length (risk_objs h0) + i))\<rparr>"
    and "probability (risk_at h0 (risks inp ! i)) \<le> 100 \<Longrightarrow>
       probability (risk_at h0 (risks inp ! i))
         \<le> probability (risk_at (snd (propagatedHeap parse inp h0)) (length (risk_objs h0) + i))
       \<and> probability (risk_at (snd (propagatedHeap parse inp h0)) (length (risk_objs h0) + i)) \<le> 100"
proof -
  have l: "length (risk_objs h0) + i < length (risk_objs (workingHeap parse inp h0))"
    using assms by (simp add: workingHeap_def)
  note r = propagatedHeap_relaxed [of inp h0 parse, unfolded relaxed_def, THEN conjunct2,
      THEN conjunct2, rule_format, OF l]
  show "risk_at (snd (propagatedHeap parse inp h0)) (length (risk_objs h0) + i)
     = (risk_at h0 (risks inp ! i))
         \<lparr>probability :=
            probability (risk_at (snd (propagatedHeap parse inp h0)) (length (risk_objs h0) + i))\<rparr>"
    using r [THEN conjunct2, THEN conjunct1] workingHeap_copy [OF assms, of parse h0]
    by (simp add: risk_at_def)
  show "probability (risk_at h0 (risks inp ! i)) \<le> 100 \<Longrightarrow>
       probability (risk_at h0 (risks inp ! i))
         \<le> probability (risk_at (snd (propagatedHeap parse inp h0)) (length (risk_objs h0) + i))
       \<and> probability (risk_at (snd (propagatedHeap parse inp h0)) (length (risk_objs h0) + i)) \<le> 100"
    using r [THEN conjunct2, THEN conjunct2] workingHeap_copy [OF assms, of parse h0]
    by (simp add: risk_at_def)
qed

lemma propagatedHeap_copy_id:
  assumes "i < length (risks inp)"
  shows "r_id (risk_at (snd (propagatedHeap parse inp h0)) (length (risk_objs h0) + i))
     = r_id (risk_at h0 (risks inp ! i))"
  by (subst propagatedHeap_copy(1) [OF assms]) simp

lemma propagatedHeap_input:
  assumes "wf_input h0 inp" and "j < length (risks inp)"
  shows "risk_at (snd (propagatedHeap parse inp h0)) (risks inp ! j) = risk_at h0 (risks inp ! j)"
proof -
  have "risks inp ! j < length (risk_objs h0)"
    using assms by (simp add: wf_input_def list_all_length)
  then show ?thesis by (simp add: risk_at_def propagatedHeap_old_risk)
qed

text \<open>With distinct ids, the working copy found for the \<open>j\<close>-th risk is the \<open>j\<close>-th copy.\<close>

lemma findPropagated_distinct:
  assumes wf: "wf_input h0 inp"
    and d: "distinct (map (\<lambda>a. r_id (risk_at h0 a)) (risks inp))"
    and j: "j < length (risks inp)"
  shows "findPropagated (fst (propagatedHeap parse inp h0)) (snd (propagatedHeap parse inp h0))
           (risks inp ! j) = Some (length (risk_objs h0) + j)"
proof -
  let ?h = "snd (propagatedHeap parse inp h0)"
  let ?n = "length (risk_objs h0)"
  let ?P = "\<lambda>p. r_id (risk_at ?h p) = r_id (risk_at ?h (risks inp ! j))"
  have ids: "\<And>i. i < length (risks inp) \<Longrightarrow>
      ?P (?n + i) \<longleftrightarrow> i = j"
  proof -
    fix i assume i: "i < length (risks inp)"
    have "?P (?n + i) \<longleftrightarrow>
        map (\<lambda>a. r_id (risk_at h0 a)) (risks inp) ! i = map (\<lambda>a. r_id (risk_at h0 a)) (risks inp) ! j"
      using i j by (simp add: propagatedHeap_copy_id propagatedHeap_input [OF wf])
    also have "\<dots> \<longleftrightarrow> i = j"
      using nth_eq_iff_index_eq [OF d, of i j] i j by simp
    finally show "?P (?n + i) \<longleftrightarrow> i = j" .
  qed
  have "find ?P (workingRefs inp h0) = Some (?n + j)"
    unfolding find_Some_iff
  proof (intro exI [of _ j] conjI allI impI)
    show "j < length (workingRefs inp h0)" using j by (simp add: workingRefs_def)
    show "?P (workingRefs inp h0 ! j)" using j ids [of j] by (simp add: workingRefs_nth)
    show "?n + j = workingRefs inp h0 ! j" using j by (simp add: workingRefs_nth)
  next
    fix i assume "i < j"
    then show "\<not> ?P (workingRefs inp h0 ! i)"
      using j ids [of i] by (simp add: workingRefs_nth)
  qed
  then show ?thesis by (simp add: findPropagated_def propagatedHeap_eq)
qed

lemma resultsOf_distinct:
  assumes wf: "wf_input h0 inp"
    and d: "distinct (map (\<lambda>a. r_id (risk_at h0 a)) (risks inp))"
  shows "resultsOf (fst (propagatedHeap parse inp h0)) (snd (propagatedHeap parse inp h0)) (risks inp)
     = map (\<lambda>j. \<lparr> p_riskId = r_id (risk_at h0 (risks inp ! j)),
                  originalProbability = probability (risk_at h0 (risks inp ! j)),
                  finalProbability =
                    probability (risk_at (snd (propagatedHeap parse inp h0))
                                   (length (risk_objs h0) + j)),
                  propagationPath = [] \<rparr>) [0 ..< length (risks inp)]"
proof -
  let ?h = "snd (propagatedHeap parse inp h0)"
  let ?ps = "fst (propagatedHeap parse inp h0)"
  have "resultsOf ?ps ?h (risks inp)
      = concat (map (\<lambda>j. case findPropagated ?ps ?h (risks inp ! j) of
          None \<Rightarrow> []
        | Some propagated \<Rightarrow>
            [\<lparr> p_riskId = r_id (risk_at ?h (risks inp ! j)),
               originalProbability = probability (risk_at ?h (risks inp ! j)),
               finalProbability = probability (risk_at ?h propagated),
               propagationPath = [] \<rparr>]) [0 ..< length (risks inp)])"
    unfolding resultsOf_def by (subst (3) map_nth [symmetric]) (simp only: map_map o_def)
  also have "\<dots> = concat (map (\<lambda>j. [\<lparr> p_riskId = r_id (risk_at h0 (risks inp ! j)),
                  originalProbability = probability (risk_at h0 (risks inp ! j)),
                  finalProbability = probability (risk_at ?h (length (risk_objs h0) + j)),
                  propagationPath = [] \<rparr>]) [0 ..< length (risks inp)])"
    by (rule arg_cong [where f = concat], rule map_cong [OF refl])
      (simp add: findPropagated_distinct [OF wf d] propagatedHeap_input [OF wf])
  also have "\<dots> = map (\<lambda>j. \<lparr> p_riskId = r_id (risk_at h0 (risks inp ! j)),
                  originalProbability = probability (risk_at h0 (risks inp ! j)),
                  finalProbability = probability (risk_at ?h (length (risk_objs h0) + j)),
                  propagationPath = [] \<rparr>) [0 ..< length (risks inp)]"
    by (induction "[0 ..< length (risks inp)]") (simp_all add: concat_map_singleton)
  finally show ?thesis .
qed

lemma resultsOf_final:
  assumes "res \<in> set (resultsOf ps h rs)"
  shows "\<exists>p \<in> set ps. finalProbability res = probability (risk_at h p)"
proof -
  from assms obtain risk where "risk \<in> set rs"
    and r: "res \<in> set (case findPropagated ps h risk of
          None \<Rightarrow> []
        | Some propagated \<Rightarrow>
            [\<lparr> p_riskId = r_id (risk_at h risk),
               originalProbability = probability (risk_at h risk),
               finalProbability = probability (risk_at h propagated),
               propagationPath = [] \<rparr>])"
    by (auto simp: resultsOf_def)
  then obtain p where p: "findPropagated ps h risk = Some p"
    and f: "finalProbability res = probability (risk_at h p)"
    by (cases "findPropagated ps h risk") auto
  from p have "p \<in> set ps" by (rule findPropagated_mem)
  with f show ?thesis by blast
qed

lemma propagation_bounded:
  assumes "\<forall>a \<in> set (risks inp). probability (risk_at h a) \<le> 100"
    and "res \<in> set (propagationResults (fst (analyzeRiskBehavior parse m opts inp h)))"
  shows "finalProbability res \<le> 100"
proof -
  from assms(2) have "res \<in> set (resultsOf (fst (propagatedHeap parse inp h))
      (snd (propagatedHeap parse inp h)) (risks inp))"
    by (simp add: analyze_propagationResults)
  from resultsOf_final [OF this]
  obtain p where p: "p \<in> set (fst (propagatedHeap parse inp h))"
    and f: "finalProbability res = probability (risk_at (snd (propagatedHeap parse inp h)) p)"
    by blast
  from p have "p \<in> set (workingRefs inp h)" by (simp add: propagatedHeap_eq)
  from workingRefs_mem [OF this]
  obtain i where i: "i < length (risks inp)" and pi: "p = length (risk_objs h) + i"
    by blast
  from i assms(1) have "probability (risk_at h (risks inp ! i)) \<le> 100" by simp
  from propagatedHeap_copy(2) [OF i this, of parse] show ?thesis by (simp add: f pi)
qed

text \<open>
  Claim C3, amended. For every input whose risks have probabilities between 0 and 100,
  the final probability of every propagation result is at most 100; and when the risks
  have pairwise distinct ids (and every reference of the input points to an object)
  there is one result for each risk, and in each the final probability is at least the
  original one.
\<close>

theorem propagation_monotone_bounded:
  assumes "\<forall>a \<in> set (risks inp). 0 \<le> probability (risk_at h a) \<and> probability (risk_at h a) \<le> 100"
  shows "(\<forall>res \<in> set (propagationResults (fst (analyzeRiskBehavior parse m opts inp h))).
            finalProbability res \<le> 100)
    \<and> (wf_input h inp \<and> distinct (map (\<lambda>a. r_id (risk_at h a)) (risks inp)) \<longrightarrow>
          length (propagationResults (fst (analyzeRiskBehavior parse m opts inp h)))
            = length (risks inp)
          \<and> (\<forall>res \<in> set (propagationResults (fst (analyzeRiskBehavior parse m opts inp h))).
                originalProbability res \<le> finalProbability res))"
proof (intro conjI impI ballI)
  fix res assume "res \<in> set (propagationResults (fst (analyzeRiskBehavior parse m opts inp h)))"
  with assms show "finalProbability res \<le> 100" by (intro propagation_bounded) auto
next
  assume a: "wf_input h inp \<and> distinct (map (\<lambda>a. r_id (risk_at h a)) (risks inp))"
  then show "length (propagationResults (fst (analyzeRiskBehavior parse m opts inp h)))
            = length (risks inp)"
    by (simp add: analyze_propagationResults resultsOf_distinct)
next
  fix res
  assume a: "wf_input h inp \<and> distinct (map (\<lambda>a. r_id (risk_at h a)) (risks inp))"
    and r: "res \<in> set (propagationResults (fst (analyzeRiskBehavior parse m opts inp h)))"
  have "\<And>j. j < length (risks inp) \<Longrightarrow> probability (risk_at h (risks inp ! j)) \<le> 100"
    using assms by simp
  then show "originalProbability res \<le> finalProbability res"
    using propagatedHeap_copy(2) [of _ inp h parse] a r
    by (auto simp: analyze_propagationResults resultsOf_distinct)
qed

theorem propagation_monotone_bounded_witness:
  "wf_input (graphStore 10) pairInput
   \<and> probability (risk_at (graphStore 10) 0) = 80 \<and> probability (risk_at (graphStore 10) 1) = 10
   \<and> length (propagationResults (fst (analyzeRiskBehavior exampleParse exampleMath defaultOptions pairInput (graphStore 10)))) = 2
   \<and> originalProbability
        (propagationResults (fst (analyzeRiskBehavior exampleParse exampleMath defaultOptions pairInput (graphStore 10))) ! 1)
      \<le> finalProbability
        (propagationResults (fst (analyzeRiskBehavior exampleParse exampleMath defaultOptions pairInput (graphStore 10))) ! 1)
   \<and> finalProbability
        (propagationResults (fst (analyzeRiskBehavior exampleParse exampleMath defaultOptions pairInput (graphStore 10))) ! 1)
      \<le> 100
   \<and> finalProbability
        (propagationResults (fst (analyzeRiskBehavior exampleParse exampleMath defaultOptions pairInput twinStore)) ! 1)
      \<le> 100"
proof -
  let ?res = "propagationResults (fst (analyzeRiskBehavior exampleParse exampleMath defaultOptions pairInput (graphStore 10)))"
  let ?twin = "propagationResults (fst (analyzeRiskBehavior exampleParse exampleMath defaultOptions pairInput twinStore))"
  have wf: "wf_input (graphStore 10) pairInput"
    by (simp add: wf_input_def graphStore_def pairInput_def)
  have pr: "probability (risk_at (graphStore 10) 0) = 80" "probability (risk_at (graphStore 10) 1) = 10"
    by (simp_all add: graphStore_def graphR1_def graphR2_def mkRisk_def risk_at_def)
  have rg: "\<forall>a \<in> set (risks pairInput).
      0 \<le> probability (risk_at (graphStore 10) a) \<and> probability (risk_at (graphStore 10) a) \<le> 100"
    using pr by (simp add: pairInput_def)
  have d: "distinct (map (\<lambda>a. r_id (risk_at (graphStore 10) a)) (risks pairInput))"
    by (simp add: pairInput_def graphStore_def graphR1_def graphR2_def mkRisk_def risk_at_def)
  have rt: "\<forall>a \<in> set (risks pairInput).
      0 \<le> probability (risk_at twinStore a) \<and> probability (risk_at twinStore a) \<le> 100"
    by (simp add: pairInput_def twinStore_def mkRisk_def risk_at_def)
  note t = propagation_monotone_bounded [OF rg, of exampleParse exampleMath defaultOptions]
  note u = propagation_monotone_bounded [OF rt, of exampleParse exampleMath defaultOptions]
  from t wf d have len: "length ?res = 2" by (simp add: pairInput_def)
  then have mem: "?res ! 1 \<in> set ?res" by simp
  from t wf d mem have lo: "originalProbability (?res ! 1) \<le> finalProbability (?res ! 1)" by blast
  from t mem have hi: "finalProbability (?res ! 1) \<le> 100" by blast
  have "length ?twin = 2" by (simp add: twin_results)
  then have "?twin ! 1 \<in> set ?twin" by simp
  with u have tw: "finalProbability (?twin ! 1) \<le> 100" by blast
  from wf pr len lo hi tw show ?thesis by blast
qed

end
